theory Spec2Isabelle
  imports Complex_Main "HOL-Library.AList"
begin

section \<open>A shallow embedding of the Enhanced MACD strategy\<close>

text \<open>
  The three Python sources are \<^verbatim>\<open>Enhanced_MACD_Strategy.py\<close> (single asset, pandas),
  \<^verbatim>\<open>QuantConnect_Enhanced_MACD_Strategy.py\<close> and \<^verbatim>\<open>QuantConnect_Simple_MACD_ETF.py\<close>
  (multi asset). Finite floats are modelled as reals, without rounding, overflow and signed
  zeros, except in \<open>CalculateEMA_f64\<close>, which rounds every operation as IEEE 754
  double precision does. Where pandas and numpy produce NaN or an infinity instead of
  raising (missing first rows, division by zero) the value is an \<open>npfloat\<close>; where
  Python raises, the model returns \<open>Inl\<close> of the exception.
\<close>

section \<open>Definitions\<close>

subsection \<open>Python exceptions and numpy floats\<close>

text \<open>
  \<open>py_error\<close> lists the exceptions the modelled code can raise. An \<open>npfloat\<close> is a
  numpy or pandas float: a finite number, an infinity or NaN (also pandas' missing
  value). The operations follow IEEE 754 without rounding: invalid operations give NaN,
  a comparison with NaN is false, and a nonzero number divided by zero is an infinity
  (numpy does not raise; Python's own float division does, and is modelled as an error
  where the source uses it).
\<close>

datatype py_error = IndexError | ZeroDivisionError | ValueError | KeyError | OverflowError

datatype npfloat = NaN | NegInf | Num real | PosInf

fun fneg :: "npfloat \<Rightarrow> npfloat" where
  "fneg NaN = NaN"
| "fneg NegInf = PosInf"
| "fneg PosInf = NegInf"
| "fneg (Num a) = Num (- a)"

fun fadd :: "npfloat \<Rightarrow> npfloat \<Rightarrow> npfloat" where
  "fadd (Num a) (Num b) = Num (a + b)"
| "fadd NaN _ = NaN"
| "fadd _ NaN = NaN"
| "fadd PosInf NegInf = NaN"
| "fadd NegInf PosInf = NaN"
| "fadd PosInf _ = PosInf"
| "fadd _ PosInf = PosInf"
| "fadd NegInf _ = NegInf"
| "fadd _ NegInf = NegInf"

definition fsub :: "npfloat \<Rightarrow> npfloat \<Rightarrow> npfloat" where
  "fsub a b = fadd a (fneg b)"

definition inf_of_sign :: "bool \<Rightarrow> npfloat" where
  "inf_of_sign positive = (if positive then PosInf else NegInf)"

fun fmul :: "npfloat \<Rightarrow> npfloat \<Rightarrow> npfloat" where
  "fmul (Num a) (Num b) = Num (a * b)"
| "fmul NaN _ = NaN"
| "fmul _ NaN = NaN"
| "fmul (Num a) PosInf = (if a = 0 then NaN else inf_of_sign (0 < a))"
| "fmul (Num a) NegInf = (if a = 0 then NaN else inf_of_sign (a < 0))"
| "fmul PosInf (Num b) = (if b = 0 then NaN else inf_of_sign (0 < b))"
| "fmul NegInf (Num b) = (if b = 0 then NaN else inf_of_sign (b < 0))"
| "fmul PosInf PosInf = PosInf"
| "fmul NegInf NegInf = PosInf"
| "fmul PosInf NegInf = NegInf"
| "fmul NegInf PosInf = NegInf"

fun fdiv :: "npfloat \<Rightarrow> npfloat \<Rightarrow> npfloat" where
  "fdiv (Num a) (Num b) =
     (if b = 0 then (if a = 0 then NaN else inf_of_sign (0 < a)) else Num (a / b))"
| "fdiv NaN _ = NaN"
| "fdiv _ NaN = NaN"
| "fdiv (Num a) _ = Num 0"
| "fdiv PosInf (Num b) = inf_of_sign (0 \<le> b)"
| "fdiv NegInf (Num b) = inf_of_sign (b < 0)"
| "fdiv _ _ = NaN"

fun fabs :: "npfloat \<Rightarrow> npfloat" where
  "fabs NaN = NaN"
| "fabs (Num a) = Num \<bar>a\<bar>"
| "fabs _ = PosInf"

fun fsqrt :: "npfloat \<Rightarrow> npfloat" where
  "fsqrt (Num a) = (if a < 0 then NaN else Num (sqrt a))"
| "fsqrt PosInf = PosInf"
| "fsqrt _ = NaN"

fun fless :: "npfloat \<Rightarrow> npfloat \<Rightarrow> bool" where
  "fless (Num a) (Num b) = (a < b)"
| "fless NaN _ = False"
| "fless _ NaN = False"
| "fless PosInf _ = False"
| "fless _ NegInf = False"
| "fless NegInf _ = True"
| "fless _ PosInf = True"

subsection \<open>The single-asset strategy\<close>

text \<open>
  \<open>ewm_mean span_n xs\<close> is pandas' \<^verbatim>\<open>xs.ewm(span=span_n).mean()\<close> with its defaults
  (\<^verbatim>\<open>adjust=True\<close>, \<^verbatim>\<open>min_periods=0\<close>): with \<open>alpha = 2 / (span_n + 1)\<close>, the value at
  step \<open>t\<close> is the sum of \<open>(1 - alpha) ^ i * x (t - i)\<close> over \<open>i \<le> t\<close>, divided by the sum
  of the weights \<open>(1 - alpha) ^ i\<close>. The loop carries the numerator and the denominator.
  pandas raises \<^verbatim>\<open>ValueError\<close> for a span below 1.
\<close>

fun ewm_loop :: "real \<Rightarrow> real \<Rightarrow> real \<Rightarrow> real list \<Rightarrow> real list" where
  "ewm_loop alpha numer denom [] = []"
| "ewm_loop alpha numer denom (x # xs) =
     (let numer' = x + (1 - alpha) * numer;
          denom' = 1 + (1 - alpha) * denom
      in (numer' / denom') # ewm_loop alpha numer' denom' xs)"

definition ewm_mean :: "int \<Rightarrow> real list \<Rightarrow> py_error + real list" where
  "ewm_mean span_n xs =
     (if span_n < 1 then Inl ValueError
      else Inr (ewm_loop (2 / (real_of_int span_n + 1)) 0 0 xs))"

text \<open>
  A data frame is the list of its rows. The price frame is given by its \<^verbatim>\<open>Close\<close>
  column, the only column the strategy reads; the row index stands for the timestamp.
\<close>

record signals_row =
  Close :: real
  macd :: real
  signal :: real
  histogram :: real
  position :: int
  signal_trigger :: int

definition calculate_macd :: "real list \<Rightarrow> int \<Rightarrow> int \<Rightarrow> int \<Rightarrow> py_error + signals_row list" where
  "calculate_macd data fast_period slow_period signal_period =
     (case ewm_mean fast_period data of
        Inl e \<Rightarrow> Inl e
      | Inr ema_fast \<Rightarrow>
          (case ewm_mean slow_period data of
             Inl e \<Rightarrow> Inl e
           | Inr ema_slow \<Rightarrow>
               (case ewm_mean signal_period (map2 (-) ema_fast ema_slow) of
                  Inl e \<Rightarrow> Inl e
                | Inr signal_col \<Rightarrow>
                    Inr (map (\<lambda>i. \<lparr>Close = data ! i,
                                     macd = map2 (-) ema_fast ema_slow ! i,
                                     signal = signal_col ! i,
                                     histogram = map2 (-) ema_fast ema_slow ! i - signal_col ! i,
                                     position = 0, signal_trigger = 0\<rparr>)
                             [0..<length data]))))"

text \<open>
  \<open>trigger_at\<close> is the body of the loop of \<^verbatim>\<open>generate_signals\<close> at row \<open>i\<close>; row 0 is not
  visited and keeps its initial 0. The assignments through \<^verbatim>\<open>.iloc[i]\<close> are taken to
  update the frame. \<open>cumulative_clip\<close> is \<^verbatim>\<open>cumsum()\<close> followed by \<^verbatim>\<open>clip(-1, 1)\<close>.
\<close>

definition crossover :: "real \<Rightarrow> real \<Rightarrow> real \<Rightarrow> real \<Rightarrow> int" where
  "crossover macd_prev signal_prev macd_i signal_i =
     (if macd_i > signal_i \<and> macd_prev \<le> signal_prev then 1
      else if macd_i < signal_i \<and> macd_prev \<ge> signal_prev then - 1
      else 0)"

definition trigger_at :: "signals_row list \<Rightarrow> nat \<Rightarrow> int" where
  "trigger_at signals i =
     (if i = 0 then 0
      else crossover (macd (signals ! (i - 1))) (signal (signals ! (i - 1)))
                     (macd (signals ! i)) (signal (signals ! i)))"

fun cumsum_loop :: "int \<Rightarrow> int list \<Rightarrow> int list" where
  "cumsum_loop acc [] = []"
| "cumsum_loop acc (x # xs) = (acc + x) # cumsum_loop (acc + x) xs"

definition cumsum :: "int list \<Rightarrow> int list" where
  "cumsum xs = cumsum_loop 0 xs"

definition clip :: "int \<Rightarrow> int \<Rightarrow> int \<Rightarrow> int" where
  "clip lower upper x = min upper (max lower x)"

definition cumulative_clip :: "int list \<Rightarrow> int list" where
  "cumulative_clip triggers = map (clip (- 1) 1) (cumsum triggers)"

definition generate_signals :: "real list \<Rightarrow> int \<Rightarrow> int \<Rightarrow> int \<Rightarrow> py_error + signals_row list" where
  "generate_signals data fast_period slow_period signal_period =
     (case calculate_macd data fast_period slow_period signal_period of
        Inl e \<Rightarrow> Inl e
      | Inr signals \<Rightarrow>
          let triggers = map (trigger_at signals) [0..<length signals];
              positions = cumulative_clip triggers
          in Inr (map (\<lambda>i. (signals ! i)\<lparr>position := positions ! i,
                                           signal_trigger := triggers ! i\<rparr>)
                      [0..<length signals]))"





text \<open>
  \<^verbatim>\<open>calculate_returns\<close>: \<^verbatim>\<open>pct_change\<close>, \<^verbatim>\<open>diff\<close> and \<^verbatim>\<open>shift(1)\<close> are NaN in the first
  row; \<^verbatim>\<open>cumprod\<close> skips NaN entries (they stay NaN and do not enter the product).
\<close>

record results_row = signals_row +
  market_return :: npfloat
  position_change :: npfloat
  transaction_costs :: npfloat
  strategy_return :: npfloat
  market_cumulative :: npfloat
  strategy_cumulative :: npfloat

definition pct_change :: "real list \<Rightarrow> npfloat list" where
  "pct_change xs =
     map (\<lambda>i. if i = 0 then NaN
              else fsub (fdiv (Num (xs ! i)) (Num (xs ! (i - 1)))) (Num 1))
         [0..<length xs]"

definition diff :: "int list \<Rightarrow> npfloat list" where
  "diff xs =
     map (\<lambda>i. if i = 0 then NaN else Num (real_of_int (xs ! i - xs ! (i - 1))))
         [0..<length xs]"

definition shift :: "int list \<Rightarrow> npfloat list" where
  "shift xs =
     map (\<lambda>i. if i = 0 then NaN else Num (real_of_int (xs ! (i - 1)))) [0..<length xs]"

fun cumprod_loop :: "npfloat \<Rightarrow> npfloat list \<Rightarrow> npfloat list" where
  "cumprod_loop acc [] = []"
| "cumprod_loop acc (x # xs) =
     (if x = NaN then NaN # cumprod_loop acc xs
      else fmul acc x # cumprod_loop (fmul acc x) xs)"

definition cumprod :: "npfloat list \<Rightarrow> npfloat list" where
  "cumprod xs = cumprod_loop (Num 1) xs"

definition calculate_returns :: "signals_row list \<Rightarrow> real \<Rightarrow> results_row list" where
  "calculate_returns signals transaction_cost =
     (let market_return_col = pct_change (map Close signals);
          position_change_col = map fabs (diff (map position signals));
          transaction_costs_col = map (\<lambda>c. fmul c (Num transaction_cost)) position_change_col;
          strategy_return_col =
            map2 fsub (map2 fmul (shift (map position signals)) market_return_col)
                 transaction_costs_col;
          market_cumulative_col = cumprod (map (fadd (Num 1)) market_return_col);
          strategy_cumulative_col = cumprod (map (fadd (Num 1)) strategy_return_col)
      in map (\<lambda>i. signals_row.extend (signals ! i)
                  (results_row.fields (market_return_col ! i) (position_change_col ! i)
                     (transaction_costs_col ! i) (strategy_return_col ! i)
                     (market_cumulative_col ! i) (strategy_cumulative_col ! i)))
             [0..<length signals])"


text \<open>
  \<^verbatim>\<open>calculate_metrics\<close>. pandas' \<^verbatim>\<open>std\<close> and \<^verbatim>\<open>var\<close> divide by \<open>n - 1\<close> and are NaN below
  two values; \<^verbatim>\<open>np.cov\<close> raises \<^verbatim>\<open>ValueError\<close> on two series of different lengths;
  \<open>fpow\<close> is numpy's power of a float by a Python float; \<^verbatim>\<open>expanding().max()\<close> and
  \<^verbatim>\<open>min()\<close> skip NaN. Python raises \<^verbatim>\<open>IndexError\<close> for \<^verbatim>\<open>.iloc[-1]\<close> on an empty column
  and \<^verbatim>\<open>ZeroDivisionError\<close> for \<^verbatim>\<open>252 / len(strategy_returns)\<close> when no return is defined;
  the branches are in the order of the source's statements.
\<close>

definition dropna :: "npfloat list \<Rightarrow> npfloat list" where
  "dropna xs = filter (\<lambda>x. x \<noteq> NaN) xs"

definition fsum :: "npfloat list \<Rightarrow> npfloat" where
  "fsum xs = foldl fadd (Num 0) xs"

definition fmean :: "npfloat list \<Rightarrow> npfloat" where
  "fmean xs = fdiv (fsum xs) (Num (real (length xs)))"

definition var_ddof1 :: "npfloat list \<Rightarrow> npfloat" where
  "var_ddof1 xs =
     (if length xs < 2 then NaN
      else fdiv (fsum (map (\<lambda>x. fmul (fsub x (fmean xs)) (fsub x (fmean xs))) xs))
                (Num (real (length xs) - 1)))"

definition std_ddof1 :: "npfloat list \<Rightarrow> npfloat" where
  "std_ddof1 xs = fsqrt (var_ddof1 xs)"

definition np_cov :: "npfloat list \<Rightarrow> npfloat list \<Rightarrow> py_error + npfloat" where
  "np_cov xs ys =
     (if length xs \<noteq> length ys then Inl ValueError
      else Inr (fdiv (fsum (map2 (\<lambda>x y. fmul (fsub x (fmean xs)) (fsub y (fmean ys))) xs ys))
                     (Num (real (length xs) - 1))))"

definition is_integer :: "real \<Rightarrow> bool" where
  "is_integer y = (y = real_of_int \<lfloor>y\<rfloor>)"

definition fpow :: "npfloat \<Rightarrow> real \<Rightarrow> npfloat" where
  "fpow b y =
     (if y = 0 then Num 1
      else case b of
        NaN \<Rightarrow> NaN
      | Num x \<Rightarrow>
          (if 0 < x then Num (x powr y)
           else if x = 0 then (if 0 < y then Num 0 else PosInf)
           else if is_integer y then Num (power_int x \<lfloor>y\<rfloor>)
           else NaN)
      | PosInf \<Rightarrow> (if 0 < y then PosInf else Num 0)
      | NegInf \<Rightarrow>
          (if y < 0 then Num 0
           else if is_integer y \<and> odd \<lfloor>y\<rfloor> then NegInf else PosInf))"

fun skipna_max :: "npfloat \<Rightarrow> npfloat \<Rightarrow> npfloat" where
  "skipna_max acc x =
     (if x = NaN then acc else if acc = NaN then x else if fless acc x then x else acc)"

fun skipna_min :: "npfloat \<Rightarrow> npfloat \<Rightarrow> npfloat" where
  "skipna_min acc x =
     (if x = NaN then acc else if acc = NaN then x else if fless x acc then x else acc)"

fun expanding_max_loop :: "npfloat \<Rightarrow> npfloat list \<Rightarrow> npfloat list" where
  "expanding_max_loop acc [] = []"
| "expanding_max_loop acc (x # xs) = skipna_max acc x # expanding_max_loop (skipna_max acc x) xs"

definition expanding_max :: "npfloat list \<Rightarrow> npfloat list" where
  "expanding_max xs = expanding_max_loop NaN xs"

definition series_min :: "npfloat list \<Rightarrow> npfloat" where
  "series_min xs = foldl skipna_min NaN xs"

record metrics =
  total_return :: npfloat
  market_return_total :: npfloat
  annual_return :: npfloat
  volatility :: npfloat
  sharpe_ratio :: npfloat
  max_drawdown_metric :: npfloat
  win_rate :: npfloat
  beta :: npfloat

definition calculate_metrics :: "results_row list \<Rightarrow> py_error + metrics" where
  "calculate_metrics returns =
     (let strategy_returns = dropna (map strategy_return returns);
          market_returns = dropna (map market_return returns)
      in if returns = [] then Inl IndexError
         else
           let total_return_v = fsub (strategy_cumulative (last returns)) (Num 1);
               market_return_v = fsub (market_cumulative (last returns)) (Num 1)
           in if length strategy_returns = 0 then Inl ZeroDivisionError
              else
                let annual_return_v =
                      fsub (fpow (fadd (Num 1) total_return_v)
                                 (252 / real (length strategy_returns))) (Num 1);
                    volatility_v = fmul (std_ddof1 strategy_returns) (Num (sqrt 252));
                    sharpe_ratio_v =
                      (if fless (Num 0) volatility_v then fdiv annual_return_v volatility_v
                       else Num 0);
                    running_max = expanding_max (map strategy_cumulative returns);
                    drawdown = map2 (\<lambda>c m. fdiv (fsub c m) m)
                                 (map strategy_cumulative returns) running_max;
                    max_drawdown_v = series_min drawdown;
                    winning_trades = filter (\<lambda>r. fless (Num 0) r) strategy_returns;
                    win_rate_v =
                      (if length strategy_returns > 0
                       then Num (real (length winning_trades) / real (length strategy_returns))
                       else Num 0);
                    beta_r =
                      (if length market_returns > 0 \<and> fless (Num 0) (std_ddof1 market_returns)
                       then (case np_cov strategy_returns market_returns of
                               Inl e \<Rightarrow> Inl e
                             | Inr covariance \<Rightarrow> Inr (fdiv covariance (var_ddof1 market_returns)))
                       else Inr (Num 0))
                in case beta_r of
                     Inl e \<Rightarrow> Inl e
                   | Inr beta_v \<Rightarrow>
                       Inr \<lparr>total_return = total_return_v,
                            market_return_total = market_return_v,
                            annual_return = annual_return_v,
                            volatility = volatility_v,
                            sharpe_ratio = sharpe_ratio_v,
                            max_drawdown_metric = max_drawdown_v,
                            win_rate = win_rate_v,
                            beta = beta_v\<rparr>)"

text \<open>
  \<^verbatim>\<open>objective_function\<close>: \<^verbatim>\<open>int()\<close> truncates towards zero; the bare \<^verbatim>\<open>except\<close> turns every
  exception of the pipeline into plus infinity.
\<close>

definition py_int :: "real \<Rightarrow> int" where
  "py_int x = (if 0 \<le> x then \<lfloor>x\<rfloor> else \<lceil>x\<rceil>)"

definition objective_function :: "real \<times> real \<times> real \<Rightarrow> real list \<Rightarrow> npfloat" where
  "objective_function params data =
     (case params of (p0, p1, p2) \<Rightarrow>
        let fast_period = py_int p0; slow_period = py_int p1; signal_period = py_int p2
        in if fast_period \<ge> slow_period \<or> fast_period < 1 \<or> signal_period < 1
           then NegInf
           else (case generate_signals data fast_period slow_period signal_period of
                   Inl e \<Rightarrow> PosInf
                 | Inr signals \<Rightarrow>
                     (case calculate_metrics (calculate_returns signals 0.001) of
                        Inl e \<Rightarrow> PosInf
                      | Inr metrics \<Rightarrow> fneg (sharpe_ratio metrics))))"

subsection \<open>Walk-forward analysis\<close>

text \<open>
  \<^verbatim>\<open>scipy.optimize.minimize\<close> is a parameter of the model: a function from the objective,
  the initial guess and the bounds to the success flag and the point it returns. Window
  lengths are natural numbers. \<open>range_loop\<close> is Python's \<^verbatim>\<open>range\<close> for a positive step; a
  step of 0 raises \<^verbatim>\<open>ValueError\<close>. \<open>walk_forward_windows\<close> are the index bounds the loop
  of \<^verbatim>\<open>walk_forward_analysis\<close> computes, and \<open>walk_forward_loop\<close> is its body; dates are
  row indices.
\<close>

type_synonym params = "real \<times> real \<times> real"

type_synonym minimizer =
  "(params \<Rightarrow> npfloat) \<Rightarrow> params \<Rightarrow> (real \<times> real) \<times> (real \<times> real) \<times> (real \<times> real)
     \<Rightarrow> bool \<times> params"

definition optimize_parameters ::
  "minimizer \<Rightarrow> real list option \<Rightarrow> nat \<Rightarrow> (int \<times> int \<times> int) option" where
  "optimize_parameters minimize data optimization_window =
     (case data of
        None \<Rightarrow> None
      | Some d \<Rightarrow>
          (case minimize (\<lambda>params. objective_function params (take optimization_window d))
                  (12, 26, 9) ((5, 20), (20, 50), (5, 15)) of
             (success, (x0, x1, x2)) \<Rightarrow>
               if success then Some (py_int x0, py_int x1, py_int x2)
               else Some (12, 26, 9)))"

function range_loop :: "int \<Rightarrow> int \<Rightarrow> int \<Rightarrow> int list" where
  "range_loop i stop step =
     (if 0 < step \<and> i < stop then i # range_loop (i + step) stop step else [])"
  by pat_completeness auto
termination
  by (relation "measure (\<lambda>(i, stop, step). nat (stop - i))") auto

declare range_loop.simps [simp del]

definition iloc :: "'a list \<Rightarrow> nat \<Rightarrow> nat \<Rightarrow> 'a list" where
  "iloc xs start stop = take (stop - start) (drop start xs)"

record window =
  opt_start :: nat
  opt_end :: nat
  test_start :: nat
  test_end :: nat

definition window_at :: "nat \<Rightarrow> nat \<Rightarrow> nat \<Rightarrow> int \<Rightarrow> window" where
  "window_at n optimization_window test_window start_idx =
     \<lparr>opt_start = nat start_idx,
      opt_end = nat start_idx + optimization_window,
      test_start = nat start_idx + optimization_window,
      test_end = min (nat start_idx + optimization_window + test_window) n\<rparr>"

definition walk_forward_windows :: "nat \<Rightarrow> nat \<Rightarrow> nat \<Rightarrow> window list" where
  "walk_forward_windows n optimization_window test_window =
     map (window_at n optimization_window test_window)
         (range_loop 0 (int n - int optimization_window - int test_window) (int test_window))"

record period_results =
  start_date :: nat
  end_date :: nat
  parameters :: "int \<times> int \<times> int"
  return_oos :: npfloat
  sharpe :: npfloat

fun walk_forward_loop ::
  "minimizer \<Rightarrow> real list \<Rightarrow> window list \<Rightarrow> period_results list
     \<Rightarrow> py_error + period_results list" where
  "walk_forward_loop minimize d [] results_list = Inr results_list"
| "walk_forward_loop minimize d (w # ws) results_list =
     (case optimize_parameters minimize (Some (iloc d (opt_start w) (opt_end w))) 252 of
        None \<Rightarrow> walk_forward_loop minimize d ws results_list
      | Some (fast_period, slow_period, signal_period) \<Rightarrow>
          (case generate_signals (iloc d (test_start w) (test_end w))
                  fast_period slow_period signal_period of
             Inl e \<Rightarrow> Inl e
           | Inr signals \<Rightarrow>
               if signals = [] then Inl IndexError
               else
                 (case calculate_metrics (calculate_returns signals 0.001) of
                    Inl e \<Rightarrow> Inl e
                  | Inr m \<Rightarrow>
                      walk_forward_loop minimize d ws
                        (results_list @
                         [\<lparr>start_date = test_start w,
                           end_date = test_end w - 1,
                           parameters = (fast_period, slow_period, signal_period),
                           return_oos =
                             fsub (strategy_cumulative (last (calculate_returns signals 0.001)))
                                  (Num 1),
                           sharpe = sharpe_ratio m\<rparr>]))))"

definition walk_forward_analysis ::
  "minimizer \<Rightarrow> real list option \<Rightarrow> nat \<Rightarrow> nat \<Rightarrow> py_error + period_results list option" where
  "walk_forward_analysis minimize data optimization_window test_window =
     (case data of
        None \<Rightarrow> Inr None
      | Some d \<Rightarrow>
          if test_window = 0 then Inl ValueError
          else (case walk_forward_loop minimize d
                       (walk_forward_windows (length d) optimization_window test_window) [] of
                  Inl e \<Rightarrow> Inl e
                | Inr results_list \<Rightarrow> Inr (Some results_list)))"

subsection \<open>The multi-asset algorithms\<close>

text \<open>
  \<^verbatim>\<open>QuantConnect_Enhanced_MACD_Strategy.py\<close>. \<^verbatim>\<open>CalculateEMA\<close>, read in exact arithmetic
  (the rounded version follows below), works on Python floats:
  \<^verbatim>\<open>2.0 / (period + 1.0)\<close> raises \<^verbatim>\<open>ZeroDivisionError\<close> for a period of -1, and
  \<^verbatim>\<open>prices[0]\<close> raises \<^verbatim>\<open>IndexError\<close> on an empty list. Of the per-symbol dictionary the
  entries \<^verbatim>\<open>symbol\<close> and \<^verbatim>\<open>last_optimization\<close> are left out; no modelled function reads
  them. A dictionary of signals is an association list: a loop over it visits the keys
  in order, reads \<^verbatim>\<open>signals[symbol_str]\<close> and assigns into the result with
  \<open>AList.update\<close>.
\<close>

fun ema_loop :: "real \<Rightarrow> real \<Rightarrow> real list \<Rightarrow> real" where
  "ema_loop multiplier ema [] = ema"
| "ema_loop multiplier ema (price # rest) =
     ema_loop multiplier ((price * multiplier) + (ema * (1 - multiplier))) rest"

definition CalculateEMA :: "real list \<Rightarrow> int \<Rightarrow> py_error + real option" where
  "CalculateEMA prices period =
     (if int (length prices) < period then Inr None
      else if real_of_int period + 1.0 = 0 then Inl ZeroDivisionError
      else (case prices of
              [] \<Rightarrow> Inl IndexError
            | p0 # rest \<Rightarrow> Inr (Some (ema_loop (2.0 / (real_of_int period + 1.0)) p0 rest))))"

record etf_data =
  etf_macd :: "real option"
  etf_ema_fast :: "real option"
  etf_ema_slow :: "real option"
  etf_signal_line :: "real option"
  etf_position :: real
  etf_last_signal :: real
  etf_optimal_params :: "int \<times> int \<times> int"
  etf_price_history :: "real list"
  etf_returns :: "real list"

record algorithm =
  etfs :: "string \<rightharpoonup> etf_data"
  max_position_size :: real
  max_drawdown :: real
  volatility_window :: nat
  drawdown :: real

definition or_zero :: "real option \<Rightarrow> real" where
  "or_zero v = (case v of None \<Rightarrow> 0 | Some x \<Rightarrow> x)"

definition UpdateMACDIndicators :: "algorithm \<Rightarrow> string \<Rightarrow> real \<Rightarrow> py_error + algorithm" where
  "UpdateMACDIndicators self symbol_str price =
     (case etfs self symbol_str of
        None \<Rightarrow> Inl KeyError
      | Some etf \<Rightarrow>
          (case etf_optimal_params etf of
             (fast_period, slow_period, signal_period) \<Rightarrow>
               if int (length (etf_price_history etf)) \<ge> slow_period then
                 (case CalculateEMA (etf_price_history etf) fast_period of
                    Inl e \<Rightarrow> Inl e
                  | Inr ema_fast \<Rightarrow>
                      (case CalculateEMA (etf_price_history etf) slow_period of
                         Inl e \<Rightarrow> Inl e
                       | Inr ema_slow \<Rightarrow>
                           (case (ema_fast, ema_slow) of
                              (Some f, Some s) \<Rightarrow>
                                Inr (self\<lparr>etfs := (etfs self)(symbol_str \<mapsto>
                                  etf\<lparr>etf_macd := Some (f - s),
                                      etf_ema_fast := Some f,
                                      etf_ema_slow := Some s,
                                      etf_signal_line :=
                                        Some ((f - s) * 0.1 + or_zero (etf_signal_line etf) * 0.9)\<rparr>)\<rparr>)
                            | _ \<Rightarrow> Inr self)))
               else Inr self))"

definition population_std :: "real list \<Rightarrow> real" where
  "population_std xs =
     sqrt (sum_list (map (\<lambda>x. (x - sum_list xs / real (length xs))\<^sup>2) xs) / real (length xs))"

definition np_std :: "real list \<Rightarrow> npfloat" where
  "np_std xs = (if xs = [] then NaN else Num (population_std xs))"

definition py_min :: "npfloat \<Rightarrow> npfloat \<Rightarrow> npfloat" where
  "py_min a b = (if fless b a then b else a)"

definition py_max :: "npfloat \<Rightarrow> npfloat \<Rightarrow> npfloat" where
  "py_max a b = (if fless a b then b else a)"

definition last_n :: "nat \<Rightarrow> 'a list \<Rightarrow> 'a list" where
  "last_n n xs = (if n = 0 then xs else drop (length xs - n) xs)"

definition vol_sized :: "real \<Rightarrow> real \<Rightarrow> npfloat \<Rightarrow> npfloat" where
  "vol_sized size_in size_cap vol =
     py_min (fmul (Num size_in)
               (py_min (fdiv (Num 0.15) (py_max vol (Num 0.05))) (Num 2.0)))
            (Num size_cap)"

definition CalculatePositionSize :: "algorithm \<Rightarrow> string \<Rightarrow> real \<Rightarrow> py_error + npfloat" where
  "CalculatePositionSize self symbol_str sig =
     (case etfs self symbol_str of
        None \<Rightarrow> Inl KeyError
      | Some etf \<Rightarrow>
          if length (etf_returns etf) < volatility_window self
          then Inr (Num (max_position_size self))
          else Inr (vol_sized (max_position_size self) (max_position_size self)
                      (fmul (np_std (last_n (volatility_window self) (etf_returns etf)))
                            (Num (sqrt 252)))))"

fun drawdown_loop ::
  "(string \<times> real) list \<Rightarrow> string list \<Rightarrow> (string \<times> npfloat) list
     \<Rightarrow> py_error + (string \<times> npfloat) list" where
  "drawdown_loop signals [] filtered_signals = Inr filtered_signals"
| "drawdown_loop signals (symbol_str # rest) filtered_signals =
     (case map_of signals symbol_str of
        None \<Rightarrow> Inl KeyError
      | Some v \<Rightarrow>
          drawdown_loop signals rest
            (AList.update symbol_str (if v > 0 then Num 0 else Num v) filtered_signals))"

fun sizing_loop ::
  "algorithm \<Rightarrow> (string \<times> real) list \<Rightarrow> (string \<times> npfloat) list
     \<Rightarrow> py_error + (string \<times> npfloat) list" where
  "sizing_loop self [] filtered_signals = Inr filtered_signals"
| "sizing_loop self ((symbol_str, sig) # rest) filtered_signals =
     (if sig \<noteq> 0 then
        (case CalculatePositionSize self symbol_str sig of
           Inl e \<Rightarrow> Inl e
         | Inr position_size \<Rightarrow>
             sizing_loop self rest
               (AList.update symbol_str (fmul (Num sig) position_size) filtered_signals))
      else sizing_loop self rest (AList.update symbol_str (Num 0) filtered_signals))"

definition ApplyRiskManagement ::
  "algorithm \<Rightarrow> (string \<times> real) list \<Rightarrow> py_error + (string \<times> npfloat) list" where
  "ApplyRiskManagement self signals =
     (if drawdown self > max_drawdown self
      then drawdown_loop signals (map fst signals) []
      else sizing_loop self signals [])"

text \<open>
  \<^verbatim>\<open>CalculateEMA\<close> in the arithmetic of the source. A Python float is an IEEE 754
  double: every operation returns the exact result rounded to the nearest number with a
  53-bit significand, ties to the even one. \<open>f64_round\<close> is that rounding (the exponent
  is the binary logarithm of the magnitude, not below -1022, where the subnormal numbers
  start), and \<open>f64\<close> turns a result of magnitude \<open>2 ^ 1024\<close> or more into an infinity.
  \<open>f64_add\<close>, \<open>f64_sub\<close>, \<open>f64_mul\<close> and \<open>f64_div\<close> are the rounded operations.
  \<open>CalculateEMA_f64\<close> is the source function with these operations; converting an
  integer period that is too large for a float raises \<^verbatim>\<open>OverflowError\<close>. The definition
  \<open>CalculateEMA\<close> above is the same function in exact arithmetic. \<open>f64_eps\<close> is the
  relative rounding error, and \<open>mid_range\<close> a range of magnitudes far from overflow and
  underflow.
\<close>

definition round_even :: "real \<Rightarrow> int" where
  "round_even y =
     (if y - of_int \<lfloor>y\<rfloor> < 1 / 2 then \<lfloor>y\<rfloor>
      else if 1 / 2 < y - of_int \<lfloor>y\<rfloor> then \<lfloor>y\<rfloor> + 1
      else if even \<lfloor>y\<rfloor> then \<lfloor>y\<rfloor> else \<lfloor>y\<rfloor> + 1)"

definition f64_exponent :: "real \<Rightarrow> int" where
  "f64_exponent x = max \<lfloor>log 2 \<bar>x\<bar>\<rfloor> (- 1022)"

definition f64_round :: "real \<Rightarrow> real" where
  "f64_round x =
     (if x = 0 then 0
      else 2 powi (f64_exponent x - 52)
             * of_int (round_even (x / 2 powi (f64_exponent x - 52))))"

definition f64 :: "real \<Rightarrow> npfloat" where
  "f64 x =
     (if 2 ^ 1024 \<le> \<bar>f64_round x\<bar> then inf_of_sign (0 < x) else Num (f64_round x))"

definition f64_of :: "npfloat \<Rightarrow> npfloat" where
  "f64_of v = (case v of Num x \<Rightarrow> f64 x | _ \<Rightarrow> v)"

definition f64_add :: "npfloat \<Rightarrow> npfloat \<Rightarrow> npfloat" where
  "f64_add a b = f64_of (fadd a b)"

definition f64_sub :: "npfloat \<Rightarrow> npfloat \<Rightarrow> npfloat" where
  "f64_sub a b = f64_of (fsub a b)"

definition f64_mul :: "npfloat \<Rightarrow> npfloat \<Rightarrow> npfloat" where
  "f64_mul a b = f64_of (fmul a b)"

definition f64_div :: "npfloat \<Rightarrow> npfloat \<Rightarrow> npfloat" where
  "f64_div a b = f64_of (fdiv a b)"

fun ema_loop_f64 :: "npfloat \<Rightarrow> npfloat \<Rightarrow> real list \<Rightarrow> npfloat" where
  "ema_loop_f64 multiplier ema [] = ema"
| "ema_loop_f64 multiplier ema (price # rest) =
     ema_loop_f64 multiplier
       (f64_add (f64_mul (Num price) multiplier)
                (f64_mul ema (f64_sub (Num 1) multiplier))) rest"

definition CalculateEMA_f64 :: "real list \<Rightarrow> int \<Rightarrow> py_error + npfloat option" where
  "CalculateEMA_f64 prices period =
     (if int (length prices) < period then Inr None
      else
        (case f64 (real_of_int period) of
           Num p \<Rightarrow>
             if f64_add (Num p) (Num 1) = Num 0 then Inl ZeroDivisionError
             else
               (case prices of
                  [] \<Rightarrow> Inl IndexError
                | p0 # rest \<Rightarrow>
                    Inr (Some (ema_loop_f64 (f64_div (Num 2) (f64_add (Num p) (Num 1)))
                                 (Num p0) rest)))
         | _ \<Rightarrow> Inl OverflowError))"

definition f64_eps :: real where
  "f64_eps = 1 / 2 ^ 53"

definition mid_range :: "real \<Rightarrow> bool" where
  "mid_range x = (2 powi (- 200) \<le> x \<and> x \<le> 2 powi 200)"

text \<open>
  \<^verbatim>\<open>CalculateStrategyReturns\<close> and the \<^verbatim>\<open>objective\<close> closure of \<^verbatim>\<open>OptimizeETFParameters\<close>.
  \<open>py_index\<close> and \<open>py_slice\<close> are Python's list indexing and slicing (a negative index
  counts from the end); \<open>truthy\<close> is the truth value of an optional float (\<^verbatim>\<open>None\<close> and
  0 are false). The three loops of the source are \<open>macd_loop\<close>, \<open>position_loop\<close> and
  \<open>returns_loop\<close>.
\<close>

definition py_index :: "'a list \<Rightarrow> int \<Rightarrow> py_error + 'a" where
  "py_index xs i =
     (if 0 \<le> i \<and> i < int (length xs) then Inr (xs ! nat i)
      else if i < 0 \<and> 0 \<le> int (length xs) + i then Inr (xs ! nat (int (length xs) + i))
      else Inl IndexError)"

definition py_slice :: "'a list \<Rightarrow> int \<Rightarrow> int \<Rightarrow> 'a list" where
  "py_slice xs start stop =
     (let n = int (length xs);
          a = (if start < 0 then max 0 (n + start) else min start n);
          b = (if stop < 0 then max 0 (n + stop) else min stop n)
      in take (nat (b - a)) (drop (nat a) xs))"

definition py_slice_from :: "'a list \<Rightarrow> int \<Rightarrow> 'a list" where
  "py_slice_from xs start = py_slice xs start (int (length xs))"

definition truthy :: "real option \<Rightarrow> bool" where
  "truthy v = (case v of None \<Rightarrow> False | Some x \<Rightarrow> x \<noteq> 0)"

definition np_mean :: "real list \<Rightarrow> npfloat" where
  "np_mean xs = (if xs = [] then NaN else Num (sum_list xs / real (length xs)))"

definition fle :: "npfloat \<Rightarrow> npfloat \<Rightarrow> bool" where
  "fle a b = (fless a b \<or> (a = b \<and> a \<noteq> NaN))"

fun macd_loop ::
  "real list \<Rightarrow> int \<Rightarrow> int \<Rightarrow> int \<Rightarrow> int list \<Rightarrow> real list \<Rightarrow> npfloat list
     \<Rightarrow> py_error + real list \<times> npfloat list" where
  "macd_loop prices fast_period slow_period signal_period [] macd_values signal_values =
     Inr (macd_values, signal_values)"
| "macd_loop prices fast_period slow_period signal_period (i # rest) macd_values signal_values =
     (case CalculateEMA (py_slice prices (max 0 (i - slow_period)) (i + 1)) fast_period of
        Inl e \<Rightarrow> Inl e
      | Inr ema_fast \<Rightarrow>
          (case CalculateEMA (py_slice prices (max 0 (i - slow_period)) (i + 1)) slow_period of
             Inl e \<Rightarrow> Inl e
           | Inr ema_slow \<Rightarrow>
               if truthy ema_fast \<and> truthy ema_slow then
                 (if int (length (macd_values @ [or_zero ema_fast - or_zero ema_slow]))
                       \<ge> signal_period
                  then macd_loop prices fast_period slow_period signal_period rest
                         (macd_values @ [or_zero ema_fast - or_zero ema_slow])
                         (signal_values @
                          [np_mean (py_slice_from
                                      (macd_values @ [or_zero ema_fast - or_zero ema_slow])
                                      (- signal_period))])
                  else macd_loop prices fast_period slow_period signal_period rest
                         (macd_values @ [or_zero ema_fast - or_zero ema_slow]) signal_values)
               else macd_loop prices fast_period slow_period signal_period rest
                      macd_values signal_values))"

fun position_loop ::
  "real list \<Rightarrow> npfloat list \<Rightarrow> int list \<Rightarrow> int list \<Rightarrow> py_error + int list" where
  "position_loop macd_values signal_values [] positions = Inr positions"
| "position_loop macd_values signal_values (i # rest) positions =
     (case (py_index macd_values i, py_index signal_values i,
            py_index macd_values (i - 1), py_index signal_values (i - 1)) of
        (Inr m, Inr s, Inr m_prev, Inr s_prev) \<Rightarrow>
          if fless s (Num m) \<and> fle (Num m_prev) s_prev
          then position_loop macd_values signal_values rest (positions @ [1])
          else if fless (Num m) s \<and> fle s_prev (Num m_prev)
          then position_loop macd_values signal_values rest (positions @ [- 1])
          else position_loop macd_values signal_values rest
                 (positions @ [if positions = [] then 0 else last positions])
      | _ \<Rightarrow> Inl IndexError)"

fun returns_loop ::
  "real list \<Rightarrow> int \<Rightarrow> int list \<Rightarrow> int list \<Rightarrow> real list \<Rightarrow> py_error + real list" where
  "returns_loop prices start_idx positions [] returns = Inr returns"
| "returns_loop prices start_idx positions (i # rest) returns =
     (if start_idx + i + 1 < int (length prices) then
        (case (py_index prices (start_idx + i + 1), py_index prices (start_idx + i),
               py_index positions i) of
           (Inr p_next, Inr p, Inr pos) \<Rightarrow>
             if p = 0 then Inl ZeroDivisionError
             else returns_loop prices start_idx positions rest
                    (returns @ [real_of_int pos * (p_next / p - 1)])
         | _ \<Rightarrow> Inl IndexError)
      else returns_loop prices start_idx positions rest returns)"

definition CalculateStrategyReturns ::
  "real list \<Rightarrow> int \<Rightarrow> int \<Rightarrow> int \<Rightarrow> py_error + real list" where
  "CalculateStrategyReturns prices fast_period slow_period signal_period =
     (if int (length prices) < slow_period + signal_period then Inr []
      else
        (case macd_loop prices fast_period slow_period signal_period
                (range_loop slow_period (int (length prices)) 1) [] [] of
           Inl e \<Rightarrow> Inl e
         | Inr (macd_values, signal_values) \<Rightarrow>
             (case position_loop macd_values signal_values
                     (range_loop 1 (int (length signal_values)) 1) [] of
                Inl e \<Rightarrow> Inl e
              | Inr positions \<Rightarrow>
                  returns_loop prices (slow_period + signal_period) positions
                    (range_loop 0 (int (length positions)) 1) [])))"

definition objective :: "real list \<Rightarrow> params \<Rightarrow> py_error + npfloat" where
  "objective prices params =
     (case params of
        (p0, p1, p2) \<Rightarrow>
          if py_int p0 \<ge> py_int p1 then Inr (Num (- 1000))
          else
            (case CalculateStrategyReturns prices (py_int p0) (py_int p1) (py_int p2) of
               Inl e \<Rightarrow> Inl e
             | Inr returns \<Rightarrow>
                 if length returns = 0 then Inr (Num (- 1000))
                 else if population_std returns = 0 then Inr (Num (- 1000))
                 else Inr (Num (- (sum_list returns / real (length returns)
                                    / population_std returns * sqrt 252)))))"

text \<open>
  \<^verbatim>\<open>QuantConnect_Simple_MACD_ETF.py\<close>. A \<^verbatim>\<open>RollingWindow\<close> is the list of its entries,
  newest first, so the latest \<open>n\<close> returns are \<open>take n\<close>. The drawdown branch of its
  \<^verbatim>\<open>ApplyRiskManagement\<close> is the same loop as in the other algorithm.
\<close>

record simple_etf_data =
  simple_position :: real
  simple_returns :: "real list"
  simple_prices :: "real list"

record simple_algorithm =
  simple_etfs :: "string \<rightharpoonup> simple_etf_data"
  simple_max_position_size :: real
  simple_max_drawdown :: real
  simple_volatility_window :: nat
  simple_drawdown :: real

definition AdjustForVolatility :: "simple_algorithm \<Rightarrow> string \<Rightarrow> real \<Rightarrow> py_error + npfloat" where
  "AdjustForVolatility self symbol_str base_size =
     (case simple_etfs self symbol_str of
        None \<Rightarrow> Inl KeyError
      | Some etf \<Rightarrow>
          if length (simple_returns etf) < simple_volatility_window self
          then Inr (Num base_size)
          else Inr (vol_sized base_size (simple_max_position_size self)
                      (fmul (np_std (take (min (simple_volatility_window self)
                                               (length (simple_returns etf)))
                                          (simple_returns etf)))
                            (Num (sqrt 252)))))"

fun simple_zero_loop :: "string list \<Rightarrow> (string \<times> npfloat) list \<Rightarrow> (string \<times> npfloat) list" where
  "simple_zero_loop [] filtered_signals = filtered_signals"
| "simple_zero_loop (symbol_str # rest) filtered_signals =
     simple_zero_loop rest (AList.update symbol_str (Num 0) filtered_signals)"

fun simple_sizing_loop ::
  "simple_algorithm \<Rightarrow> (string \<times> real) list \<Rightarrow> (string \<times> npfloat) list
     \<Rightarrow> py_error + (string \<times> npfloat) list" where
  "simple_sizing_loop self [] filtered_signals = Inr filtered_signals"
| "simple_sizing_loop self ((symbol_str, sig) # rest) filtered_signals =
     (if sig \<noteq> 0 then
        (case AdjustForVolatility self symbol_str (simple_max_position_size self) of
           Inl e \<Rightarrow> Inl e
         | Inr position_size \<Rightarrow>
             simple_sizing_loop self rest
               (AList.update symbol_str (fmul (Num sig) position_size) filtered_signals))
      else simple_sizing_loop self rest (AList.update symbol_str (Num 0) filtered_signals))"

definition Simple_ApplyRiskManagement ::
  "simple_algorithm \<Rightarrow> (string \<times> real) list \<Rightarrow> py_error + (string \<times> npfloat) list" where
  "Simple_ApplyRiskManagement self signals =
     (if simple_drawdown self > simple_max_drawdown self
      then drawdown_loop signals (map fst signals) []
      else if sum_list (map (\<lambda>s. \<bar>s\<bar>) (filter (\<lambda>s. s \<noteq> 0) (map snd signals))) = 0
      then Inr (simple_zero_loop (map fst signals) [])
      else simple_sizing_loop self signals [])"

subsection \<open>The sizing rule as the specification words it\<close>

text \<open>
  The sizing rule in the words of the specification, to be compared with the code.
\<close>

definition spec_position_size :: "real \<Rightarrow> real \<Rightarrow> real \<Rightarrow> real \<Rightarrow> real \<Rightarrow> real" where
  "spec_position_size maxPositionSize baseVol volFloor capMultiplier assetVol =
     min maxPositionSize
         (maxPositionSize * min (baseVol / max assetVol volFloor) capMultiplier)"

section \<open>Theorems\<close>

subsection \<open>CalculateEMA in exact arithmetic\<close>

lemma convex_step:
  fixes m :: real
  assumes "0 \<le> m" "m \<le> 1" "lo \<le> e" "e \<le> hi" "lo \<le> p" "p \<le> hi"
  shows "lo \<le> p * m + e * (1 - m) \<and> p * m + e * (1 - m) \<le> hi"
proof -
  have a: "lo * m \<le> p * m" "p * m \<le> hi * m"
    using assms by (simp_all add: mult_right_mono)
  have b: "lo * (1 - m) \<le> e * (1 - m)" "e * (1 - m) \<le> hi * (1 - m)"
    using assms by (simp_all add: mult_right_mono)
  have "lo = lo * m + lo * (1 - m)" "hi = hi * m + hi * (1 - m)"
    by (simp_all add: algebra_simps)
  with a b show ?thesis by linarith
qed

lemma ema_loop_bounds:
  assumes "0 \<le> m" "m \<le> 1"
  shows "lo \<le> e \<Longrightarrow> e \<le> hi \<Longrightarrow> \<forall>p\<in>set rest. lo \<le> p \<and> p \<le> hi
         \<Longrightarrow> lo \<le> ema_loop m e rest \<and> ema_loop m e rest \<le> hi"
proof (induction rest arbitrary: e)
  case Nil
  then show ?case by simp
next
  case (Cons p rest)
  have "lo \<le> p * m + e * (1 - m) \<and> p * m + e * (1 - m) \<le> hi"
    using convex_step[OF assms] Cons.prems by simp
  then show ?case using Cons.IH[of "p * m + e * (1 - m)"] Cons.prems by simp
qed

lemma ema_loop_const: "\<forall>p\<in>set rest. p = c \<Longrightarrow> ema_loop m c rest = c"
  by (induction rest) (simp_all add: algebra_simps)

text \<open>
  In exact arithmetic the loop is a convex combination: the result lies between the
  least and the greatest price, and a constant list gives its constant. The doubles of
  the source satisfy this up to rounding only, as the next subsection shows.
\<close>

lemma CalculateEMA_exact_convex:
  "(CalculateEMA prices period = Inr None \<longleftrightarrow> int (length prices) < period) \<and>
   (1 \<le> period \<and> prices \<noteq> [] \<and> \<not> int (length prices) < period \<longrightarrow>
      (\<exists>e. CalculateEMA prices period = Inr (Some e) \<and>
           Min (set prices) \<le> e \<and> e \<le> Max (set prices) \<and>
           ((\<forall>p\<in>set prices. p = c) \<longrightarrow> e = c)))"
proof (intro conjI impI)
  show "CalculateEMA prices period = Inr None \<longleftrightarrow> int (length prices) < period"
    by (simp add: CalculateEMA_def split: list.splits)
next
  assume h: "1 \<le> period \<and> prices \<noteq> [] \<and> \<not> int (length prices) < period"
  then obtain p0 rest where pr: "prices = p0 # rest" by (cases prices) auto
  let ?m = "2 / (real_of_int period + 1)"
  let ?e = "ema_loop ?m p0 rest"
  have m: "0 \<le> ?m" "?m \<le> 1" using h by simp_all
  have eq: "CalculateEMA prices period = Inr (Some ?e)"
    using h pr by (simp add: CalculateEMA_def)
  have fin: "finite (set prices)" "set prices \<noteq> {}" using pr by simp_all
  have bnd: "\<forall>p\<in>set prices. Min (set prices) \<le> p \<and> p \<le> Max (set prices)"
    using fin by simp
  have "Min (set prices) \<le> ?e \<and> ?e \<le> Max (set prices)"
    using ema_loop_bounds[OF m, of "Min (set prices)" p0 "Max (set prices)" rest] bnd pr
    by simp
  moreover have "(\<forall>p\<in>set prices. p = c) \<longrightarrow> ?e = c"
    using ema_loop_const[of rest c ?m] pr by simp
  ultimately show "\<exists>e. CalculateEMA prices period = Inr (Some e) \<and>
           Min (set prices) \<le> e \<and> e \<le> Max (set prices) \<and>
           ((\<forall>p\<in>set prices. p = c) \<longrightarrow> e = c)"
    using eq by blast
qed

subsection \<open>CalculateEMA in double precision\<close>

text \<open>
  The rounding of a number in a known binade, and the values it takes on the constant
  list of five closes of 99 with period 5.
\<close>

lemma two_powr_int: "(2::real) powr real_of_int n = 2 powi n"
  by (simp add: powr_real_of_int')

lemma f64_round_binade:
  assumes "2 powi k \<le> \<bar>x\<bar>" "\<bar>x\<bar> < 2 powi (k + 1)" "- 1022 \<le> k"
  shows "f64_round x = 2 powi (k - 52) * of_int (round_even (x / 2 powi (k - 52)))"
proof -
  have "(0::real) < 2 powi k" by simp
  then have pos: "0 < \<bar>x\<bar>" using assms(1) by linarith
  have lo: "2 powr real_of_int k \<le> \<bar>x\<bar>"
    using assms(1) by (simp only: two_powr_int)
  have hi: "\<bar>x\<bar> < 2 powr real_of_int (k + 1)"
    using assms(2) by (simp only: two_powr_int)
  have "\<lfloor>log 2 \<bar>x\<bar>\<rfloor> = k"
    using floor_log_eq_powr_iff[of "\<bar>x\<bar>" 2 k] pos lo hi by simp
  then have "f64_exponent x = k" using assms(3) by (simp add: f64_exponent_def)
  moreover have "x \<noteq> 0" using pos by simp
  ultimately show ?thesis by (simp add: f64_round_def)
qed

lemma f64_binade:
  assumes "2 powi k \<le> \<bar>x\<bar>" "\<bar>x\<bar> < 2 powi (k + 1)" "- 1022 \<le> k"
    "\<bar>(2::real) powi (k - 52) * of_int (round_even (x / 2 powi (k - 52)))\<bar> < 2 ^ 1024"
  shows "f64 x = Num (2 powi (k - 52) * of_int (round_even (x / 2 powi (k - 52))))"
proof -
  have "\<not> 2 ^ 1024 \<le> \<bar>f64_round x\<bar>"
    using assms(4) f64_round_binade[OF assms(1-3)] by linarith
  then show ?thesis
    using f64_round_binade[OF assms(1-3)] by (simp only: f64_def if_False)
qed

lemma f64_two_sixths: "f64 (2 / 6) = Num (6004799503160661 / 18014398509481984)"
  by (subst f64_binade[of "- 2"]) (simp_all add: round_even_def)


lemma f64_five: "f64 5 = Num 5"
  by (subst f64_binade[of 2]) (simp_all add: round_even_def)

lemma f64_six: "f64 6 = Num 6"
  by (subst f64_binade[of 2]) (simp_all add: round_even_def)

lemma f64_one_minus_multiplier: "f64 (1 - 6004799503160661 / 18014398509481984) = Num (3002399751580331 / 4503599627370496)"
  by (subst f64_binade[of "- 1"]) (simp_all add: round_even_def)

lemma f64_price_term: "f64 (99 * (6004799503160661 / 18014398509481984)) = Num 33"
  by (subst f64_binade[of 5]) (simp_all add: round_even_def)

lemma f64_average_term: "f64 (99 * (3002399751580331 / 4503599627370496)) = Num (4644337115725825 / 70368744177664)"
  by (subst f64_binade[of 6]) (simp_all add: round_even_def)

lemma f64_term_sum: "f64 (33 + 4644337115725825 / 70368744177664) = Num (6966505673588737 / 70368744177664)"
  by (subst f64_binade[of 6]) (simp_all add: round_even_def)

lemma f64_drifted_average_term: "f64 (6966505673588737 / 70368744177664 * (3002399751580331 / 4503599627370496)) = Num (4644337115725825 / 70368744177664)"
  by (subst f64_binade[of 6]) (simp_all add: round_even_def)

lemma ema_step_99:
  "f64_add (f64_mul (Num 99) (Num (6004799503160661 / 18014398509481984)))
           (f64_mul (Num 99) (f64_sub (Num 1) (Num (6004799503160661 / 18014398509481984)))) = Num (6966505673588737 / 70368744177664)"
  using f64_one_minus_multiplier f64_price_term f64_average_term f64_term_sum
  by (simp add: f64_add_def f64_mul_def f64_sub_def f64_of_def fsub_def)

lemma ema_step_drifted:
  "f64_add (f64_mul (Num 99) (Num (6004799503160661 / 18014398509481984)))
           (f64_mul (Num (6966505673588737 / 70368744177664)) (f64_sub (Num 1) (Num (6004799503160661 / 18014398509481984)))) = Num (6966505673588737 / 70368744177664)"
  using f64_one_minus_multiplier f64_price_term f64_drifted_average_term f64_term_sum
  by (simp add: f64_add_def f64_mul_def f64_sub_def f64_of_def fsub_def)

lemma CalculateEMA_f64_five_closes:
  "CalculateEMA_f64 [99, 99, 99, 99, 99] 5 = Inr (Some (Num (6966505673588737 / 70368744177664)))"
proof -
  have m: "f64_div (Num 2) (f64_add (Num 5) (Num 1)) = Num (6004799503160661 / 18014398509481984)"
    using f64_six f64_two_sixths by (simp add: f64_div_def f64_add_def f64_of_def)
  have d: "f64_add (Num 5) (Num 1) = Num 6"
    using f64_six by (simp add: f64_add_def f64_of_def)
  show ?thesis
    using f64_five by (simp add: CalculateEMA_f64_def d m[unfolded d] ema_step_99 ema_step_drifted)
qed

text \<open>
  Rounding moves a number of the normal range by at most the fraction \<open>2 ^ -53\<close> of
  itself and never across a power of two.
\<close>

lemma f64_eps_pos: "0 < f64_eps" and f64_eps_small: "f64_eps < 1 / 1000"
  by (simp_all add: f64_eps_def)

lemma round_even_err: "\<bar>of_int (round_even y) - y\<bar> \<le> 1 / 2"
proof -
  have "of_int \<lfloor>y\<rfloor> \<le> y" "y < of_int \<lfloor>y\<rfloor> + 1" by linarith+
  then show ?thesis by (auto simp: round_even_def)
qed

lemma round_even_ge: "of_int N \<le> y \<Longrightarrow> N \<le> round_even y"
proof -
  assume "of_int N \<le> y"
  then have "N \<le> \<lfloor>y\<rfloor>" by (simp add: le_floor_iff)
  then show ?thesis by (auto simp: round_even_def)
qed

lemma round_even_le: "y \<le> of_int N \<Longrightarrow> round_even y \<le> N"
proof (cases "y = of_int N")
  case True
  then show ?thesis by (simp add: round_even_def)
next
  case False
  assume "y \<le> of_int N"
  with False have "y < of_int N" by simp
  then have "\<lfloor>y\<rfloor> < N" by (simp add: floor_less_iff)
  then show ?thesis by (auto simp: round_even_def)
qed

lemma f64_normal_exponent:
  assumes "2 powi (- 1022) \<le> (x::real)"
  obtains k where "- 1022 \<le> k" "2 powi k \<le> x" "x < 2 powi (k + 1)"
proof -
  have "(0::real) < 2 powi (- 1022)" by (rule zero_less_power_int) simp
  then have pos: "0 < x" using assms by linarith
  define k where "k = \<lfloor>log 2 x\<rfloor>"
  have b: "2 powr real_of_int k \<le> x \<and> x < 2 powr real_of_int (k + 1)"
    using floor_log_eq_powr_iff[of x 2 k] pos by (simp add: k_def)
  have "2 powr real_of_int (- 1022) \<le> x" using assms by (simp only: two_powr_int)
  then have "real_of_int (- 1022) \<le> log 2 x" using pos by (simp add: le_log_iff)
  then have "- 1022 \<le> k" unfolding k_def by (simp only: le_floor_iff)
  with b that show ?thesis by (simp only: two_powr_int)
qed

lemma f64_round_normal:
  assumes "- 1022 \<le> k" "2 powi k \<le> x" "x < 2 powi (k + 1)"
  shows "\<bar>f64_round x - x\<bar> \<le> x * f64_eps"
    and "2 powi k \<le> f64_round x"
    and "f64_round x \<le> 2 powi (k + 1)"
proof -
  have "(0::real) < 2 powi k" by (rule zero_less_power_int) simp
  then have pos: "0 < x" using assms by linarith
  define ulp :: real where "ulp = 2 powi (k - 52)"
  define y where "y = x / ulp"
  have ulp_pos: "0 < ulp" unfolding ulp_def by (rule zero_less_power_int) simp
  have r: "f64_round x = ulp * of_int (round_even y)"
    using f64_round_binade[of k x] assms pos by (simp add: ulp_def y_def)
  have xy: "ulp * y = x" using ulp_pos by (simp add: y_def)
  have k_ulp: "2 powi k = ulp * 2 ^ 52"
    by (simp add: ulp_def power_int_diff)
  have k1_ulp: "2 powi (k + 1) = ulp * 2 ^ 53"
    by (simp add: ulp_def power_int_diff power_int_add)
  have "ulp * (of_int (round_even y) - y) = f64_round x - x"
    by (simp add: right_diff_distrib xy r)
  then have "\<bar>f64_round x - x\<bar> = \<bar>ulp * (of_int (round_even y) - y)\<bar>" by simp
  also have "\<dots> = ulp * \<bar>of_int (round_even y) - y\<bar>"
    using ulp_pos by (simp add: abs_mult)
  also have "\<dots> \<le> ulp * (1 / 2)"
    using round_even_err[of y] ulp_pos by (intro mult_left_mono) simp_all
  also have "\<dots> = 2 powi k * f64_eps" by (simp add: k_ulp f64_eps_def)
  also have "\<dots> \<le> x * f64_eps"
    using assms(2) f64_eps_pos by (intro mult_right_mono) simp_all
  finally show "\<bar>f64_round x - x\<bar> \<le> x * f64_eps" .
  have "of_int (2 ^ 52) \<le> y"
    using assms(2) ulp_pos by (simp add: y_def k_ulp pos_le_divide_eq mult.commute)
  then have "2 ^ 52 \<le> round_even y" by (rule round_even_ge)
  then have "(2::real) ^ 52 \<le> of_int (round_even y)"
    by (metis of_int_le_iff of_int_numeral of_int_power)
  then show "2 powi k \<le> f64_round x"
    using ulp_pos by (simp add: r k_ulp)
  have "y \<le> of_int (2 ^ 53)"
    using assms(3) ulp_pos by (simp add: y_def k1_ulp pos_divide_le_eq mult.commute)
  then have "round_even y \<le> 2 ^ 53" by (rule round_even_le)
  then have "of_int (round_even y) \<le> (2::real) ^ 53"
    by (metis of_int_le_iff of_int_numeral of_int_power)
  then show "f64_round x \<le> 2 powi (k + 1)"
    using ulp_pos by (simp add: r k1_ulp)
qed

lemma two_powi_mono: "a \<le> b \<Longrightarrow> (2::real) powi a \<le> 2 powi b"
  by (rule power_int_increasing) simp_all

lemma f64_round_one: "f64_round 1 = 1"
  using f64_round_binade[of 0 1] by (simp add: round_even_def)

lemma f64_zero: "f64 0 = Num 0"
  by (simp add: f64_def f64_round_def)

lemma f64_normal:
  assumes "2 powi (- 1022) \<le> x" "x \<le> 2 powi 1022"
  shows "\<exists>r. f64 x = Num r \<and> x * (1 - f64_eps) \<le> r \<and> r \<le> x * (1 + f64_eps) \<and>
             (1 \<le> x \<longrightarrow> 1 \<le> r) \<and> (2 \<le> x \<longrightarrow> 2 \<le> r) \<and> (x \<le> 1 \<longrightarrow> r \<le> 1)"
proof -
  from f64_normal_exponent[OF assms(1)] obtain k where
    k: "- 1022 \<le> k" "2 powi k \<le> x" "x < 2 powi (k + 1)" by blast
  note rn = f64_round_normal[OF k]
  have kpos: "(0::real) < 2 powi k" by (rule zero_less_power_int) simp
  have "k \<le> 1022"
  proof (rule ccontr)
    assume "\<not> k \<le> 1022"
    then have "1023 \<le> k" by simp
    then have "(2::real) powi 1023 \<le> 2 powi k" by (rule two_powi_mono)
    moreover have "(2::real) powi 1022 < 2 powi 1023" by simp
    ultimately show False using k(2) assms(2) by linarith
  qed
  then have "(2::real) powi (k + 1) \<le> 2 powi 1023" by (intro two_powi_mono) simp
  then have "f64_round x \<le> 2 powi 1023" using rn(3) by linarith
  moreover have "0 < f64_round x" using rn(2) kpos by linarith
  moreover have "(2::real) powi 1023 < 2 ^ 1024" by simp
  ultimately have "\<not> 2 ^ 1024 \<le> \<bar>f64_round x\<bar>" by linarith
  then have eq: "f64 x = Num (f64_round x)" by (simp only: f64_def if_False)
  have lo: "x * (1 - f64_eps) \<le> f64_round x" and hi: "f64_round x \<le> x * (1 + f64_eps)"
    using rn(1) by (simp_all add: algebra_simps abs_le_iff)
  have one: "1 \<le> x \<longrightarrow> 1 \<le> f64_round x"
  proof
    assume "1 \<le> x"
    have "0 \<le> k"
    proof (rule ccontr)
      assume "\<not> 0 \<le> k"
      then have "k + 1 \<le> 0" by simp
      then have "(2::real) powi (k + 1) \<le> 2 powi 0" by (rule two_powi_mono)
      with k(3) \<open>1 \<le> x\<close> show False by simp
    qed
    then have "(2::real) powi 0 \<le> 2 powi k" by (rule two_powi_mono)
    with rn(2) show "1 \<le> f64_round x" by simp
  qed
  have two: "2 \<le> x \<longrightarrow> 2 \<le> f64_round x"
  proof
    assume "2 \<le> x"
    have "1 \<le> k"
    proof (rule ccontr)
      assume "\<not> 1 \<le> k"
      then have "k + 1 \<le> 1" by simp
      then have "(2::real) powi (k + 1) \<le> 2 powi 1" by (rule two_powi_mono)
      with k(3) \<open>2 \<le> x\<close> show False by simp
    qed
    then have "(2::real) powi 1 \<le> 2 powi k" by (rule two_powi_mono)
    with rn(2) show "2 \<le> f64_round x" by simp
  qed
  have le1: "x \<le> 1 \<longrightarrow> f64_round x \<le> 1"
  proof
    assume "x \<le> 1"
    show "f64_round x \<le> 1"
    proof (cases "x = 1")
      case True
      then show ?thesis by (simp add: f64_round_one)
    next
      case False
      with \<open>x \<le> 1\<close> have "x < 1" by simp
      have "k < 0"
      proof (rule ccontr)
        assume "\<not> k < 0"
        then have "0 \<le> k" by simp
        then have "(2::real) powi 0 \<le> 2 powi k" by (rule two_powi_mono)
        with k(2) \<open>x < 1\<close> show False by simp
      qed
      then have "k + 1 \<le> 0" by simp
      then have "(2::real) powi (k + 1) \<le> 2 powi 0" by (rule two_powi_mono)
      with rn(3) show ?thesis by simp
    qed
  qed
  show ?thesis using eq lo hi one two le1 by blast
qed

lemma f64_mid:
  assumes "mid_range x"
  shows "\<exists>r. f64 x = Num r \<and> x * (1 - f64_eps) \<le> r \<and> r \<le> x * (1 + f64_eps) \<and>
             (1 \<le> x \<longrightarrow> 1 \<le> r) \<and> (2 \<le> x \<longrightarrow> 2 \<le> r) \<and> (x \<le> 1 \<longrightarrow> r \<le> 1)"
proof -
  have "(2::real) powi (- 1022) \<le> 2 powi (- 200)" "(2::real) powi 200 \<le> 2 powi 1022"
    by (rule two_powi_mono, simp)+
  with assms have "2 powi (- 1022) \<le> x" "x \<le> 2 powi 1022"
    unfolding mid_range_def by linarith+
  then show ?thesis by (rule f64_normal)
qed

text \<open>
  One update of the average, and the whole loop: each update can widen the range of the
  prices by three roundings.
\<close>

lemma f64_two: "f64 2 = Num 2"
  by (subst f64_binade[of 1]) (simp_all add: round_even_def)

lemma eps_bounds: "0 \<le> f64_eps" "0 \<le> 1 - f64_eps" "0 \<le> 1 + f64_eps" "1 + f64_eps \<le> 2"
  "1 / 2 \<le> 1 - f64_eps"
  using f64_eps_pos f64_eps_small by simp_all

lemma pow_eps_lo: "n \<le> 2 ^ 23 \<Longrightarrow> 1 / 2 \<le> (1 - f64_eps) ^ n"
proof -
  assume n: "n \<le> 2 ^ 23"
  have "1 + of_nat n * (- f64_eps) \<le> (1 + (- f64_eps)) ^ n"
    by (rule Bernoulli_inequality) (use f64_eps_small in simp)
  moreover have "real n \<le> real (2 ^ 23)" using n by (rule of_nat_mono)
  then have "real n * f64_eps \<le> 2 ^ 23 * f64_eps"
    using f64_eps_pos by (intro mult_right_mono) simp_all
  moreover have "2 ^ 23 * f64_eps \<le> 1 / 2" by (simp add: f64_eps_def)
  ultimately show ?thesis by simp
qed

lemma pow_eps_hi: "n \<le> 2 ^ 23 \<Longrightarrow> (1 + f64_eps) ^ n \<le> 2"
proof -
  assume n: "n \<le> 2 ^ 23"
  have "(1 + f64_eps) * (1 - f64_eps) \<le> 1"
    using f64_eps_pos by (simp add: algebra_simps)
  moreover have "0 \<le> (1 + f64_eps) * (1 - f64_eps)"
    using eps_bounds by simp
  ultimately have "((1 + f64_eps) * (1 - f64_eps)) ^ n \<le> 1"
    by (rule power_le_one[rotated])
  then have a: "(1 + f64_eps) ^ n * (1 - f64_eps) ^ n \<le> 1"
    by (simp only: power_mult_distrib)
  have "0 \<le> (1 + f64_eps) ^ n" using eps_bounds by simp
  then have "(1 + f64_eps) ^ n * (1 / 2) \<le> (1 + f64_eps) ^ n * (1 - f64_eps) ^ n"
    using pow_eps_lo[OF n] by (rule mult_left_mono[rotated])
  with a show ?thesis by simp
qed

lemma pow_eps_le_one: "(1 - f64_eps) ^ n \<le> 1" and pow_eps_ge_one: "1 \<le> (1 + f64_eps) ^ n"
  using eps_bounds by (simp_all add: power_le_one one_le_power)

lemma mid_rangeI: "2 powi (- 200) \<le> x \<Longrightarrow> x \<le> 2 powi 200 \<Longrightarrow> mid_range x"
  by (simp add: mid_range_def)

lemma ema_step_bounds:
  assumes m: "2 powi (- 23) \<le> m" "m \<le> 1"
    and s: "s = 0 \<or> 1 / 8 \<le> s" "(1 - m) * (1 - f64_eps) \<le> s" "s \<le> (1 - m) * (1 + f64_eps)"
    and AB: "2 powi (- 62) \<le> A" "B \<le> 2 powi 62" "A \<le> p" "p \<le> B" "A \<le> e" "e \<le> B"
  shows "\<exists>r. f64_add (f64_mul (Num p) (Num m)) (f64_mul (Num e) (Num s)) = Num r \<and>
             A * (1 - f64_eps) ^ 3 \<le> r \<and> r \<le> B * (1 + f64_eps) ^ 3"
proof -
  have "(0::real) < 2 powi (- 62)" "(0::real) < 2 powi (- 23)"
    by (rule zero_less_power_int, simp)+
  then have Apos: "0 < A" and mpos: "0 < m" using AB(1) m(1) by linarith+
  have ppos: "0 < p" and epos: "0 < e" and Bpos: "0 < B" using Apos AB by linarith+
  have s0: "0 \<le> s" using s(1) by auto
  have s2: "s \<le> 2"
  proof -
    have "(1 - m) * (1 + f64_eps) \<le> 1 * 2"
      using mpos m(2) eps_bounds by (intro mult_mono) simp_all
    with s(3) show ?thesis by simp
  qed
  \<comment> \<open>the first product\<close>
  have x1_lo: "2 powi (- 200) \<le> p * m"
  proof -
    have "(2::real) powi (- 62) * 2 powi (- 23) \<le> p * m"
      using AB(1,3) m(1) by (intro mult_mono) simp_all
    then show ?thesis by simp
  qed
  have x1_hi: "p * m \<le> 2 powi 200"
  proof -
    have "p * m \<le> 2 powi 62 * 1"
      using AB(2,4) m(2) mpos ppos by (intro mult_mono) simp_all
    then show ?thesis by simp
  qed
  from f64_mid[OF mid_rangeI[OF x1_lo x1_hi]] obtain a where
    a: "f64 (p * m) = Num a" "p * m * (1 - f64_eps) \<le> a" "a \<le> p * m * (1 + f64_eps)"
    by blast
  \<comment> \<open>the second product\<close>
  have "\<exists>b. f64 (e * s) = Num b \<and> e * s * (1 - f64_eps) \<le> b \<and> b \<le> e * s * (1 + f64_eps)"
  proof (cases "s = 0")
    case True
    then show ?thesis by (simp add: f64_zero)
  next
    case False
    with s(1) have s8: "1 / 8 \<le> s" by simp
    have "(2::real) powi (- 62) * (1 / 8) \<le> e * s"
      using AB(1,5) s8 by (intro mult_mono) simp_all
    then have lo: "2 powi (- 200) \<le> e * s" by simp
    have "e * s \<le> 2 powi 62 * 2"
      using AB(2,6) s2 s0 epos by (intro mult_mono) simp_all
    then have hi: "e * s \<le> 2 powi 200" by simp
    from f64_mid[OF mid_rangeI[OF lo hi]] show ?thesis by blast
  qed
  then obtain b where
    b: "f64 (e * s) = Num b" "e * s * (1 - f64_eps) \<le> b" "b \<le> e * s * (1 + f64_eps)"
    by blast
  have es0: "0 \<le> e * s" using epos s0 by simp
  have b0: "0 \<le> b"
  proof -
    have "0 \<le> e * s * (1 - f64_eps)" using es0 eps_bounds by simp
    with b(2) show ?thesis by linarith
  qed
  \<comment> \<open>the exact sum of the exact products\<close>
  have sum_hi: "p * m + e * s \<le> B * (1 + f64_eps)"
  proof -
    have "p * m \<le> B * m" using AB(4) mpos by simp
    also have "\<dots> \<le> B * m * (1 + f64_eps)"
      using Bpos mpos f64_eps_pos by (simp add: algebra_simps)
    finally have 1: "p * m \<le> B * m * (1 + f64_eps)" .
    have "e * s \<le> B * s" using AB(6) s0 by (simp add: mult_right_mono)
    also have "\<dots> \<le> B * ((1 - m) * (1 + f64_eps))"
      using s(3) Bpos by simp
    finally have 2: "e * s \<le> B * ((1 - m) * (1 + f64_eps))" .
    have "B * m * (1 + f64_eps) + B * ((1 - m) * (1 + f64_eps)) = B * (1 + f64_eps)"
      by (simp add: algebra_simps)
    with 1 2 show ?thesis by linarith
  qed
  have sum_lo: "A * (1 - f64_eps) \<le> p * m + e * s"
  proof -
    have "A * m * (1 - f64_eps) \<le> A * m"
      using Apos mpos f64_eps_pos by (simp add: algebra_simps)
    also have "\<dots> \<le> p * m" using AB(3) mpos by simp
    finally have 1: "A * m * (1 - f64_eps) \<le> p * m" .
    have "A * ((1 - m) * (1 - f64_eps)) \<le> A * s" using s(2) Apos by simp
    also have "\<dots> \<le> e * s" using AB(5) s0 by (simp add: mult_right_mono)
    finally have 2: "A * ((1 - m) * (1 - f64_eps)) \<le> e * s" .
    have "A * m * (1 - f64_eps) + A * ((1 - m) * (1 - f64_eps)) = A * (1 - f64_eps)"
      by (simp add: algebra_simps)
    with 1 2 show ?thesis by linarith
  qed
  have ab_hi: "a + b \<le> (p * m + e * s) * (1 + f64_eps)"
    using a(3) b(3) by (simp add: algebra_simps)
  have ab_lo: "(p * m + e * s) * (1 - f64_eps) \<le> a + b"
    using a(2) b(2) by (simp add: algebra_simps)
  have ab_hi2: "a + b \<le> B * (1 + f64_eps) * (1 + f64_eps)"
  proof -
    have "(p * m + e * s) * (1 + f64_eps) \<le> B * (1 + f64_eps) * (1 + f64_eps)"
      using sum_hi eps_bounds by (intro mult_right_mono) simp_all
    with ab_hi show ?thesis by linarith
  qed
  have ab_lo2: "A * (1 - f64_eps) * (1 - f64_eps) \<le> a + b"
  proof -
    have "A * (1 - f64_eps) * (1 - f64_eps) \<le> (p * m + e * s) * (1 - f64_eps)"
      using sum_lo eps_bounds by (intro mult_right_mono) simp_all
    with ab_lo show ?thesis by linarith
  qed
  \<comment> \<open>the rounded sum\<close>
  have x3_lo: "2 powi (- 200) \<le> a + b"
  proof -
    have "p * m * (1 / 2) \<le> p * m * (1 - f64_eps)"
      using ppos mpos eps_bounds by (intro mult_left_mono) simp_all
    moreover have "(2::real) powi (- 62) * 2 powi (- 23) \<le> p * m"
      using AB(1,3) m(1) by (intro mult_mono) simp_all
    ultimately have "(2::real) powi (- 62) * 2 powi (- 23) * (1 / 2) \<le> a"
      using a(2) by linarith
    with b0 show ?thesis by simp
  qed
  have x3_hi: "a + b \<le> 2 powi 200"
  proof -
    have t: "B * (1 + f64_eps) \<le> 2 powi 62 * 2"
      using AB(2) Bpos eps_bounds by (intro mult_mono) simp_all
    have "B * (1 + f64_eps) * (1 + f64_eps) \<le> 2 powi 62 * 2 * 2"
      by (rule mult_mono[OF t]) (use eps_bounds in simp_all)
    with ab_hi2 show ?thesis by simp
  qed
  from f64_mid[OF mid_rangeI[OF x3_lo x3_hi]] obtain r where
    r: "f64 (a + b) = Num r" "(a + b) * (1 - f64_eps) \<le> r" "r \<le> (a + b) * (1 + f64_eps)"
    by blast
  have eq: "f64_add (f64_mul (Num p) (Num m)) (f64_mul (Num e) (Num s)) = Num r"
    using a(1) b(1) r(1) by (simp add: f64_add_def f64_mul_def f64_of_def)
  have "(a + b) * (1 + f64_eps) \<le> B * (1 + f64_eps) * (1 + f64_eps) * (1 + f64_eps)"
    using ab_hi2 eps_bounds by (intro mult_right_mono) simp_all
  with r(3) have hi: "r \<le> B * (1 + f64_eps) ^ 3"
    by (simp add: power3_eq_cube mult.assoc)
  have "A * (1 - f64_eps) * (1 - f64_eps) * (1 - f64_eps) \<le> (a + b) * (1 - f64_eps)"
    using ab_lo2 eps_bounds by (intro mult_right_mono) simp_all
  with r(2) have lo: "A * (1 - f64_eps) ^ 3 \<le> r"
    by (simp add: power3_eq_cube mult.assoc)
  show ?thesis using eq lo hi by blast
qed

lemma multiplier_facts:
  assumes "1 \<le> period" "period \<le> 2 ^ 20"
  shows "\<exists>p d m s. f64 (real_of_int period) = Num p \<and> f64_add (Num p) (Num 1) = Num d \<and>
           d \<noteq> 0 \<and> f64_div (Num 2) (Num d) = Num m \<and> f64_sub (Num 1) (Num m) = Num s \<and>
           2 powi (- 23) \<le> m \<and> m \<le> 1 \<and> (s = 0 \<or> 1 / 8 \<le> s) \<and>
           (1 - m) * (1 - f64_eps) \<le> s \<and> s \<le> (1 - m) * (1 + f64_eps)"
proof (cases "period = 1")
  case True
  have one: "f64 1 = Num 1"
  proof -
    have "mid_range 1" by (simp add: mid_range_def)
    from f64_mid[OF this] show ?thesis by auto
  qed
  have "f64 (real_of_int period) = Num 1" using True one by simp
  moreover have "f64_add (Num 1) (Num 1) = Num 2"
    using f64_two by (simp add: f64_add_def f64_of_def)
  moreover have "f64_div (Num 2) (Num 2) = Num 1"
    using one by (simp add: f64_div_def f64_of_def)
  moreover have "f64_sub (Num 1) (Num 1) = Num 0"
    using f64_zero by (simp add: f64_sub_def fsub_def f64_of_def)
  ultimately show ?thesis by (intro exI[of _ 1] exI[of _ 2] exI[of _ 0]) simp
next
  case False
  with assms have p2: "2 \<le> real_of_int period" by simp
  have phi: "real_of_int period \<le> 2 ^ 20" using assms(2) by (metis of_int_le_iff of_int_numeral of_int_power)
  have "mid_range (real_of_int period)"
    using p2 phi by (simp add: mid_range_def)
  from f64_mid[OF this] obtain p where
    p: "f64 (real_of_int period) = Num p" "2 \<le> p" "p \<le> real_of_int period * (1 + f64_eps)"
    using p2 by blast
  have p_hi: "p \<le> 2 ^ 20 * 2"
  proof -
    have "real_of_int period * (1 + f64_eps) \<le> 2 ^ 20 * 2"
      using phi p2 eps_bounds by (intro mult_mono) simp_all
    with p(3) show ?thesis by linarith
  qed
  have "mid_range (p + 1)" using p(2) p_hi by (simp add: mid_range_def)
  from f64_mid[OF this] obtain d where
    d: "f64 (p + 1) = Num d" "(p + 1) * (1 - f64_eps) \<le> d" "d \<le> (p + 1) * (1 + f64_eps)"
    by blast
  have d_lo: "29 / 10 \<le> d"
  proof -
    have "3 * (1 - f64_eps) \<le> (p + 1) * (1 - f64_eps)"
      using p(2) eps_bounds by (intro mult_right_mono) simp_all
    moreover have "29 / 10 \<le> 3 * (1 - f64_eps)" using f64_eps_small by simp
    ultimately show ?thesis using d(2) by linarith
  qed
  have d_hi: "d \<le> 2 ^ 23"
  proof -
    have "(p + 1) * (1 + f64_eps) \<le> (2 ^ 20 * 2 + 1) * 2"
      using p_hi p(2) eps_bounds by (intro mult_mono) simp_all
    with d(3) show ?thesis by simp
  qed
  have dpos: "0 < d" using d_lo by simp
  have dadd: "f64_add (Num p) (Num 1) = Num d"
    using d(1) by (simp add: f64_add_def f64_of_def)
  have q_hi: "2 / d \<le> 20 / 29"
    using d_lo dpos by (simp add: field_simps)
  have q_lo: "2 powi (- 22) \<le> 2 / d"
    using d_hi dpos by (simp add: field_simps)
  have "mid_range (2 / d)" using q_hi q_lo by (simp add: mid_range_def)
  from f64_mid[OF this] obtain m where
    m: "f64 (2 / d) = Num m" "2 / d * (1 - f64_eps) \<le> m" "m \<le> 2 / d * (1 + f64_eps)"
    by blast
  have mdiv: "f64_div (Num 2) (Num d) = Num m"
    using m(1) dpos by (simp add: f64_div_def f64_of_def)
  have m_hi: "m \<le> 7 / 10"
  proof -
    have "2 / d * (1 + f64_eps) \<le> 20 / 29 * (1 + 1 / 1000)"
      using q_hi f64_eps_small eps_bounds dpos by (intro mult_mono) simp_all
    moreover have "20 / 29 * (1 + 1 / 1000) \<le> (7 / 10 :: real)" by simp
    ultimately show ?thesis using m(3) by linarith
  qed
  have m_lo: "2 powi (- 23) \<le> m"
  proof -
    have "2 powi (- 22) * (1 / 2) \<le> 2 / d * (1 - f64_eps)"
      using q_lo eps_bounds dpos by (intro mult_mono) simp_all
    moreover have "(2::real) powi (- 23) = 2 powi (- 22) * (1 / 2)" by simp
    ultimately show ?thesis using m(2) by linarith
  qed
  have "mid_range (1 - m)" using m_hi m_lo by (simp add: mid_range_def)
  from f64_mid[OF this] obtain s where
    s: "f64 (1 - m) = Num s" "(1 - m) * (1 - f64_eps) \<le> s" "s \<le> (1 - m) * (1 + f64_eps)"
    by blast
  have ssub: "f64_sub (Num 1) (Num m) = Num s"
    using s(1) by (simp add: f64_sub_def fsub_def f64_of_def)
  have s_lo: "1 / 8 \<le> s"
  proof -
    have "3 / 10 * (1 / 2) \<le> (1 - m) * (1 - f64_eps)"
      using m_hi eps_bounds by (intro mult_mono) simp_all
    with s(2) show ?thesis by simp
  qed
  show ?thesis
    using p(1) dadd dpos mdiv ssub m_lo m_hi s_lo s(2,3) by (intro exI[of _ p] exI[of _ d] exI[of _ m] exI[of _ s]) simp
qed

lemma ema_loop_f64_bounds:
  assumes m: "2 powi (- 23) \<le> m" "m \<le> 1"
    and s: "f64_sub (Num 1) (Num m) = Num s" "s = 0 \<or> 1 / 8 \<le> s"
      "(1 - m) * (1 - f64_eps) \<le> s" "s \<le> (1 - m) * (1 + f64_eps)"
    and lohi: "2 powi (- 60) \<le> lo" "hi \<le> 2 powi 60"
  shows "j + length rest \<le> 2 ^ 20 \<Longrightarrow> \<forall>p\<in>set rest. lo \<le> p \<and> p \<le> hi \<Longrightarrow>
         lo * (1 - f64_eps) ^ (3 * j) \<le> e \<Longrightarrow> e \<le> hi * (1 + f64_eps) ^ (3 * j) \<Longrightarrow>
         \<exists>r. ema_loop_f64 (Num m) (Num e) rest = Num r \<and>
             lo * (1 - f64_eps) ^ (3 * (j + length rest)) \<le> r \<and>
             r \<le> hi * (1 + f64_eps) ^ (3 * (j + length rest))"
proof (induction rest arbitrary: e j)
  case Nil
  then show ?case by simp
next
  case (Cons p rest)
  let ?A = "lo * (1 - f64_eps) ^ (3 * j)"
  let ?B = "hi * (1 + f64_eps) ^ (3 * j)"
  have "(0::real) < 2 powi (- 60)" by (rule zero_less_power_int) simp
  then have lopos: "0 < lo" using lohi(1) by linarith
  have plo: "lo \<le> p" and phi: "p \<le> hi" using Cons.prems(2) by simp_all
  then have hipos: "0 < hi" using lopos by linarith
  have j3: "3 * j \<le> 2 ^ 23" using Cons.prems(1) by simp
  have A_lo: "2 powi (- 62) \<le> ?A"
  proof -
    have "2 powi (- 60) * (1 / 2) \<le> lo * (1 - f64_eps) ^ (3 * j)"
      using lohi(1) pow_eps_lo[OF j3] by (intro mult_mono) simp_all
    then show ?thesis by simp
  qed
  have B_hi: "?B \<le> 2 powi 62"
  proof -
    have "hi * (1 + f64_eps) ^ (3 * j) \<le> 2 powi 60 * 2"
      using lohi(2) pow_eps_hi[OF j3] hipos eps_bounds by (intro mult_mono) simp_all
    then show ?thesis by simp
  qed
  have A_p: "?A \<le> p"
  proof -
    have "lo * (1 - f64_eps) ^ (3 * j) \<le> lo * 1"
      using lopos pow_eps_le_one[of "3 * j"] by (intro mult_left_mono) simp_all
    with plo show ?thesis by simp
  qed
  have p_B: "p \<le> ?B"
  proof -
    have "hi * 1 \<le> hi * (1 + f64_eps) ^ (3 * j)"
      using hipos pow_eps_ge_one[of "3 * j"] by (intro mult_left_mono) simp_all
    with phi show ?thesis by simp
  qed
  from ema_step_bounds[OF m s(2,3,4) A_lo B_hi A_p p_B Cons.prems(3,4)] obtain e' where
    e': "f64_add (f64_mul (Num p) (Num m)) (f64_mul (Num e) (Num s)) = Num e'"
      "?A * (1 - f64_eps) ^ 3 \<le> e'" "e' \<le> ?B * (1 + f64_eps) ^ 3"
    by blast
  have "3 * Suc j = 3 * j + 3" by simp
  then have pw: "x ^ (3 * Suc j) = x ^ (3 * j) * x ^ 3" for x :: real
    by (simp only: power_add)
  have lo': "lo * (1 - f64_eps) ^ (3 * Suc j) \<le> e'"
    using e'(2) by (simp only: pw mult.assoc)
  have hi': "e' \<le> hi * (1 + f64_eps) ^ (3 * Suc j)"
    using e'(3) by (simp only: pw mult.assoc)
  have len: "Suc j + length rest \<le> 2 ^ 20" using Cons.prems(1) by simp
  have rest: "\<forall>p\<in>set rest. lo \<le> p \<and> p \<le> hi" using Cons.prems(2) by simp
  from Cons.IH[OF len rest lo' hi'] obtain r where
    r: "ema_loop_f64 (Num m) (Num e') rest = Num r"
      "lo * (1 - f64_eps) ^ (3 * (Suc j + length rest)) \<le> r"
      "r \<le> hi * (1 + f64_eps) ^ (3 * (Suc j + length rest))"
    by blast
  have "ema_loop_f64 (Num m) (Num e) (p # rest) = Num r"
    using r(1) e'(1) s(1) by simp
  then show ?case using r(2,3) by simp
qed

text \<open>
  Claim C10, as amended. \<open>CalculateEMA\<close> returns \<open>None\<close> exactly when the price list has
  fewer than \<open>period\<close> elements. Otherwise, for a period of at least 1 and a list of at
  most \<open>2 ^ 20\<close> prices between \<open>2 ^ -60\<close> and \<open>2 ^ 60\<close>, it returns a float between
  the least price times \<open>(1 - 2 ^ -53) ^ (3 * (n - 1))\<close> and the greatest price times
  \<open>(1 + 2 ^ -53) ^ (3 * (n - 1))\<close>, where \<open>n\<close> is the number of prices: the bounds of a
  convex combination, and the constant of a constant list, hold up to rounding.
\<close>

theorem CalculateEMA_f64_rounded_bounds:
  "(CalculateEMA_f64 prices period = Inr None \<longleftrightarrow> int (length prices) < period) \<and>
   (1 \<le> period \<and> \<not> int (length prices) < period \<and> length prices \<le> 2 ^ 20 \<and>
    (\<forall>p\<in>set prices. 1 / 2 ^ 60 \<le> p \<and> p \<le> 2 ^ 60) \<longrightarrow>
      (\<exists>r. CalculateEMA_f64 prices period = Inr (Some (Num r)) \<and>
           Min (set prices) * (1 - 1 / 2 ^ 53) ^ (3 * (length prices - 1)) \<le> r \<and>
           r \<le> Max (set prices) * (1 + 1 / 2 ^ 53) ^ (3 * (length prices - 1))))"
proof (rule conjI; (rule impI)?)
  show "CalculateEMA_f64 prices period = Inr None \<longleftrightarrow> int (length prices) < period"
    by (simp add: CalculateEMA_f64_def split: npfloat.splits list.splits)
next
  assume h: "1 \<le> period \<and> \<not> int (length prices) < period \<and> length prices \<le> 2 ^ 20 \<and>
    (\<forall>p\<in>set prices. 1 / 2 ^ 60 \<le> p \<and> p \<le> 2 ^ 60)"
  then obtain p0 rest where pr: "prices = p0 # rest" by (cases prices) auto
  have "int (length prices) \<le> 2 ^ 20"
    using h by (metis of_nat_le_iff of_nat_numeral of_nat_power)
  with h have per: "1 \<le> period" "period \<le> 2 ^ 20" by linarith+
  from multiplier_facts[OF per] obtain p d m s where
    f: "f64 (real_of_int period) = Num p" "f64_add (Num p) (Num 1) = Num d" "d \<noteq> 0"
       "f64_div (Num 2) (Num d) = Num m" "f64_sub (Num 1) (Num m) = Num s"
       "2 powi (- 23) \<le> m" "m \<le> 1" "s = 0 \<or> 1 / 8 \<le> s"
       "(1 - m) * (1 - f64_eps) \<le> s" "s \<le> (1 - m) * (1 + f64_eps)"
    by blast
  have eq: "CalculateEMA_f64 prices period = Inr (Some (ema_loop_f64 (Num m) (Num p0) rest))"
    using h pr f(1-4) by (simp add: CalculateEMA_f64_def)
  let ?lo = "Min (set prices)" and ?hi = "Max (set prices)"
  have fin: "finite (set prices)" "set prices \<noteq> {}" using pr by simp_all
  have mem: "?lo \<in> set prices" "?hi \<in> set prices"
    using fin by (simp_all add: Min_in Max_in del: set_simps)
  have lo: "2 powi (- 60) \<le> ?lo" and hi: "?hi \<le> 2 powi 60"
    using h mem by (simp_all add: power_int_minus divide_simps del: set_simps Min_in Max_in)
  have all: "\<forall>q\<in>set rest. ?lo \<le> q \<and> q \<le> ?hi"
    using fin pr by simp
  have p0: "?lo * (1 - f64_eps) ^ (3 * 0) \<le> p0" "p0 \<le> ?hi * (1 + f64_eps) ^ (3 * 0)"
    using fin pr by simp_all
  have len: "0 + length rest \<le> 2 ^ 20" using h pr by simp
  from ema_loop_f64_bounds[OF f(6,7) f(5) f(8,9,10) lo hi len all p0] obtain r where
    r: "ema_loop_f64 (Num m) (Num p0) rest = Num r"
       "?lo * (1 - f64_eps) ^ (3 * (0 + length rest)) \<le> r"
       "r \<le> ?hi * (1 + f64_eps) ^ (3 * (0 + length rest))"
    by blast
  have "length prices - 1 = 0 + length rest" using pr by simp
  then show "\<exists>r. CalculateEMA_f64 prices period = Inr (Some (Num r)) \<and>
           ?lo * (1 - 1 / 2 ^ 53) ^ (3 * (length prices - 1)) \<le> r \<and>
           r \<le> ?hi * (1 + 1 / 2 ^ 53) ^ (3 * (length prices - 1))"
    using eq r unfolding f64_eps_def by (simp only:) blast
qed

theorem CalculateEMA_f64_rounded_bounds_witness:
  "CalculateEMA_f64 [99, 99, 99, 99, 99] 5 = Inr (Some (Num (6966505673588737 / 70368744177664))) \<and>
   99 * (1 - 1 / 2 ^ 53) ^ 12 \<le> (6966505673588737 / 70368744177664 :: real) \<and>
   (6966505673588737 / 70368744177664 :: real) \<le> 99 * (1 + 1 / 2 ^ 53) ^ 12 \<and>
   CalculateEMA_f64 [99, 99, 99, 99, 99] 6 = Inr None"
proof -
  have "\<exists>r. CalculateEMA_f64 [99, 99, 99, 99, 99] 5 = Inr (Some (Num r)) \<and>
           99 * (1 - 1 / 2 ^ 53) ^ 12 \<le> r \<and> r \<le> 99 * (1 + 1 / 2 ^ 53) ^ 12"
    using CalculateEMA_f64_rounded_bounds[of "[99, 99, 99, 99, 99]" 5] by simp
  moreover have "CalculateEMA_f64 [99, 99, 99, 99, 99] 6 = Inr None"
    using CalculateEMA_f64_rounded_bounds[of "[99, 99, 99, 99, 99]" 6] by simp
  ultimately show ?thesis using CalculateEMA_f64_five_closes by auto
qed

text \<open>
  Claim C10 as stated fails: on five closes of 99 with period 5 the multiplier is the
  double next to one third, and the result is \<open>99.00000000000001\<close>, above every price
  of the list.
\<close>

theorem CalculateEMA_constant_drifts_counterexample:
  "CalculateEMA_f64 [99, 99, 99, 99, 99] 5 = Inr (Some (Num (6966505673588737 / 70368744177664))) \<and>
   Max (set [99 :: real, 99, 99, 99, 99]) < 6966505673588737 / 70368744177664"
  using CalculateEMA_f64_five_closes by simp

subsection \<open>Single-asset signal generation\<close>

lemma length_cumsum_loop: "length (cumsum_loop acc xs) = length xs"
  by (induction xs arbitrary: acc) simp_all

lemma length_cumulative_clip: "length (cumulative_clip ts) = length ts"
  by (simp add: cumulative_clip_def cumsum_def length_cumsum_loop)

lemma cumulative_clip_range: "p \<in> set (cumulative_clip ts) \<Longrightarrow> - 1 \<le> p \<and> p \<le> 1"
  by (auto simp: cumulative_clip_def clip_def)

lemma generate_signals_positions:
  assumes "generate_signals data f s sg = Inr rows"
  shows "\<exists>signals. length rows = length signals \<and>
           (\<forall>i<length rows. position (rows ! i) =
               cumulative_clip (map (trigger_at signals) [0..<length signals]) ! i)"
  using assms
  by (auto simp: generate_signals_def Let_def split: sum.splits)

text \<open>
  Claim C5. The position column that \<open>generate_signals\<close> produces is the clipped
  cumulative sum of the triggers, so every position lies in \<open>[-1, 1]\<close>: for any trigger
  sequence given to \<open>cumulative_clip\<close>, and for every row of every frame that
  \<open>generate_signals\<close> returns.
\<close>

theorem positions_within_unit_range:
  "(p \<in> set (cumulative_clip triggers) \<longrightarrow> - 1 \<le> p \<and> p \<le> 1) \<and>
   (generate_signals data fast_period slow_period signal_period = Inr rows \<and> r \<in> set rows
      \<longrightarrow> - 1 \<le> position r \<and> position r \<le> 1)"
proof (rule conjI; rule impI)
  assume "p \<in> set (cumulative_clip triggers)"
  then show "- 1 \<le> p \<and> p \<le> 1" by (rule cumulative_clip_range)
next
  assume h: "generate_signals data fast_period slow_period signal_period = Inr rows \<and> r \<in> set rows"
  then obtain signals where len: "length rows = length signals"
    and pos: "\<forall>i<length rows. position (rows ! i) =
               cumulative_clip (map (trigger_at signals) [0..<length signals]) ! i"
    using generate_signals_positions by blast
  from h obtain i where i: "i < length rows" "r = rows ! i"
    by (auto simp: in_set_conv_nth)
  let ?ps = "cumulative_clip (map (trigger_at signals) [0..<length signals])"
  have "length ?ps = length rows" using len by (simp add: length_cumulative_clip)
  with i pos have "position r \<in> set ?ps" by (metis nth_mem)
  then show "- 1 \<le> position r \<and> position r \<le> 1" by (rule cumulative_clip_range)
qed

lemma generate_signals_two_rows: "generate_signals [1, 2] 12 26 9 =
   Inr [\<lparr>Close = 1, macd = 0, signal = 0, histogram = 0, position = 0, signal_trigger = 0\<rparr>,
        \<lparr>Close = 2, macd = 7 / 312, signal = 35 / 2808, histogram = 7 / 702,
         position = 1, signal_trigger = 1\<rparr>]"
  by code_simp

lemma cumulative_clip_example: "cumulative_clip [1, 1, - 1] = [1, 1, 1]"
  by (simp add: cumulative_clip_def cumsum_def clip_def)

theorem positions_within_unit_range_witness:
  "1 \<in> set (cumulative_clip [1, 1, - 1]) \<and> - 1 \<le> (1::int) \<and>
   generate_signals [1, 2] 12 26 9 =
     Inr [\<lparr>Close = 1, macd = 0, signal = 0, histogram = 0, position = 0, signal_trigger = 0\<rparr>,
          \<lparr>Close = 2, macd = 7 / 312, signal = 35 / 2808, histogram = 7 / 702,
           position = 1, signal_trigger = 1\<rparr>] \<and>
   position \<lparr>Close = 2, macd = 7 / 312, signal = 35 / 2808, histogram = 7 / 702,
           position = 1, signal_trigger = 1\<rparr> \<le> 1"
  using positions_within_unit_range[of 1 "[1, 1, - 1]" "[1, 2]" 12 26 9
      "[\<lparr>Close = 1, macd = 0, signal = 0, histogram = 0, position = 0, signal_trigger = 0\<rparr>,
        \<lparr>Close = 2, macd = 7 / 312, signal = 35 / 2808, histogram = 7 / 702,
         position = 1, signal_trigger = 1\<rparr>]"
      "\<lparr>Close = 2, macd = 7 / 312, signal = 35 / 2808, histogram = 7 / 702,
         position = 1, signal_trigger = 1\<rparr>"]
    generate_signals_two_rows cumulative_clip_example
  by simp

subsection \<open>The optimizer's objective\<close>

text \<open>
  Claim C1, evaluated at the infeasible candidate \<open>(26, 12, 9)\<close> (fast period above the
  slow period). \<open>objective_function\<close> returns minus infinity before the pipeline runs:
  no score is lower, so for the minimizer this is the best score, not the worst one; the
  worst one, plus infinity, is what the exception handler of the same function returns.
  The \<open>objective\<close> of \<^verbatim>\<open>OptimizeETFParameters\<close> returns \<open>-1000\<close> there, the negated Sharpe
  ratio of a strategy with a Sharpe ratio of 1000.
\<close>

theorem objective_function_invalid_is_least:
  "objective_function (26, 12, 9) data = NegInf \<and>
   (\<forall>s. \<not> fless s (objective_function (26, 12, 9) data)) \<and>
   fless (objective_function (26, 12, 9) data) PosInf \<and>
   objective prices (26, 12, 9) = Inr (Num (- 1000))"
proof -
  have eq: "objective_function (26, 12, 9) data = NegInf"
    by (simp add: objective_function_def py_int_def)
  have "\<not> fless s NegInf" for s by (cases s) simp_all
  moreover have "objective prices (26, 12, 9) = Inr (Num (- 1000))"
    by (simp add: objective_def py_int_def)
  ultimately show ?thesis using eq by simp
qed

subsection \<open>Returns and metrics\<close>

lemma length_pct_change: "length (pct_change xs) = length xs"
  by (simp add: pct_change_def)
lemma length_diff: "length (diff xs) = length xs"
  by (simp add: diff_def)
lemma length_shift: "length (shift xs) = length xs"
  by (simp add: shift_def)

lemma strategy_return_nth:
  assumes "i < length signals"
  shows "strategy_return (calculate_returns signals tc ! i) =
           fsub (fmul (shift (map position signals) ! i) (pct_change (map Close signals) ! i))
                (fmul (fabs (diff (map position signals) ! i)) (Num tc))"
  using assms
  by (simp add: calculate_returns_def Let_def length_pct_change length_diff length_shift
        signals_row.defs results_row.defs)

lemma market_return_nth:
  assumes "i < length signals"
  shows "market_return (calculate_returns signals tc ! i) = pct_change (map Close signals) ! i"
  using assms
  by (simp add: calculate_returns_def Let_def signals_row.defs results_row.defs)

lemma length_calculate_returns: "length (calculate_returns signals tc) = length signals"
  by (simp add: calculate_returns_def Let_def)


lemma pct_change_nth:
  "i < length xs \<Longrightarrow> pct_change xs ! i =
     (if i = 0 then NaN else fsub (fdiv (Num (xs ! i)) (Num (xs ! (i - 1)))) (Num 1))"
  by (simp add: pct_change_def)

lemma shift_nth:
  "i < length xs \<Longrightarrow> shift xs ! i = (if i = 0 then NaN else Num (real_of_int (xs ! (i - 1))))"
  by (simp add: shift_def)

lemma diff_nth:
  "i < length xs \<Longrightarrow> diff xs ! i =
     (if i = 0 then NaN else Num (real_of_int (xs ! i - xs ! (i - 1))))"
  by (simp add: diff_def)

lemma map_position_update_Close:
  "map position (signals[k := (signals ! k)\<lparr>Close := c\<rparr>]) = map position signals"
proof (cases "k < length signals")
  case True
  then show ?thesis by (simp add: map_update list_update_same_conv)
next
  case False
  then have "signals[k := (signals ! k)\<lparr>Close := c\<rparr>] = signals"
    by (metis list_update_beyond not_less)
  then show ?thesis by simp
qed

lemma pct_change_update_later:
  assumes "i < length signals"
  shows "pct_change (map Close (signals[Suc i := (signals ! Suc i)\<lparr>Close := c\<rparr>])) ! i =
         pct_change (map Close signals) ! i"
  using assms by (simp add: pct_change_nth)

text \<open>
  Claim C2. At every step \<open>i \<ge> 1\<close> the market return of \<open>calculate_returns\<close> is
  the relative change of the close from step \<open>i - 1\<close> to step \<open>i\<close>, and the strategy
  return is the position of step \<open>i - 1\<close> times that market return, minus the transaction
  cost times the absolute position change. Replacing the close of step \<open>i + 1\<close> by any
  other price leaves the strategy return of step \<open>i\<close> as it was.
\<close>

theorem strategy_return_lagged:
  assumes "i < length signals"
  shows "(1 \<le> i \<longrightarrow>
            market_return (calculate_returns signals tc ! i) =
              fsub (fdiv (Num (Close (signals ! i))) (Num (Close (signals ! (i - 1))))) (Num 1) \<and>
            strategy_return (calculate_returns signals tc ! i) =
              fsub (fmul (Num (real_of_int (position (signals ! (i - 1)))))
                         (market_return (calculate_returns signals tc ! i)))
                   (Num (tc * \<bar>real_of_int (position (signals ! i) - position (signals ! (i - 1)))\<bar>))) \<and>
         strategy_return
           (calculate_returns (signals[Suc i := (signals ! Suc i)\<lparr>Close := c\<rparr>]) tc ! i) =
         strategy_return (calculate_returns signals tc ! i)"
proof (rule conjI)
  show "1 \<le> i \<longrightarrow>
            market_return (calculate_returns signals tc ! i) =
              fsub (fdiv (Num (Close (signals ! i))) (Num (Close (signals ! (i - 1))))) (Num 1) \<and>
            strategy_return (calculate_returns signals tc ! i) =
              fsub (fmul (Num (real_of_int (position (signals ! (i - 1)))))
                         (market_return (calculate_returns signals tc ! i)))
                   (Num (tc * \<bar>real_of_int (position (signals ! i) - position (signals ! (i - 1)))\<bar>))"
    using assms
    by (simp add: strategy_return_nth market_return_nth pct_change_nth shift_nth diff_nth
          mult.commute)
next
  let ?s' = "signals[Suc i := (signals ! Suc i)\<lparr>Close := c\<rparr>]"
  have "i < length ?s'" using assms by simp
  then have "strategy_return (calculate_returns ?s' tc ! i) =
           fsub (fmul (shift (map position ?s') ! i) (pct_change (map Close ?s') ! i))
                (fmul (fabs (diff (map position ?s') ! i)) (Num tc))"
    by (rule strategy_return_nth)
  also have "\<dots> = fsub (fmul (shift (map position signals) ! i) (pct_change (map Close signals) ! i))
                (fmul (fabs (diff (map position signals) ! i)) (Num tc))"
    using assms by (simp only: map_position_update_Close pct_change_update_later)
  also have "\<dots> = strategy_return (calculate_returns signals tc ! i)"
    using assms by (simp only: strategy_return_nth)
  finally show "strategy_return (calculate_returns ?s' tc ! i) =
         strategy_return (calculate_returns signals tc ! i)" .
qed

theorem strategy_return_lagged_witness:
  "(1::nat) < length
     [\<lparr>Close = 100, macd = 0, signal = 0, histogram = 0, position = 1, signal_trigger = 1\<rparr>,
      \<lparr>Close = 110, macd = 0, signal = 0, histogram = 0, position = 0, signal_trigger = - 1\<rparr>,
      \<lparr>Close = 121, macd = 0, signal = 0, histogram = 0, position = 0, signal_trigger = 0\<rparr>] \<and>
   market_return (calculate_returns
     [\<lparr>Close = 100, macd = 0, signal = 0, histogram = 0, position = 1, signal_trigger = 1\<rparr>,
      \<lparr>Close = 110, macd = 0, signal = 0, histogram = 0, position = 0, signal_trigger = - 1\<rparr>,
      \<lparr>Close = 121, macd = 0, signal = 0, histogram = 0, position = 0, signal_trigger = 0\<rparr>] (1 / 1000) ! 1) = Num (1 / 10) \<and>
   strategy_return (calculate_returns
     [\<lparr>Close = 100, macd = 0, signal = 0, histogram = 0, position = 1, signal_trigger = 1\<rparr>,
      \<lparr>Close = 110, macd = 0, signal = 0, histogram = 0, position = 0, signal_trigger = - 1\<rparr>,
      \<lparr>Close = 121, macd = 0, signal = 0, histogram = 0, position = 0, signal_trigger = 0\<rparr>] (1 / 1000) ! 1) = Num (99 / 1000) \<and>
   strategy_return (calculate_returns
     [\<lparr>Close = 100, macd = 0, signal = 0, histogram = 0, position = 1, signal_trigger = 1\<rparr>,
      \<lparr>Close = 110, macd = 0, signal = 0, histogram = 0, position = 0, signal_trigger = - 1\<rparr>,
      \<lparr>Close = 500, macd = 0, signal = 0, histogram = 0, position = 0, signal_trigger = 0\<rparr>] (1 / 1000) ! 1) = Num (99 / 1000)"
  using strategy_return_lagged[of 1
     "[\<lparr>Close = 100, macd = 0, signal = 0, histogram = 0, position = 1, signal_trigger = 1\<rparr>,
      \<lparr>Close = 110, macd = 0, signal = 0, histogram = 0, position = 0, signal_trigger = - 1\<rparr>,
      \<lparr>Close = 121, macd = 0, signal = 0, histogram = 0, position = 0, signal_trigger = 0\<rparr>]" "1 / 1000" 500]
  by (simp add: fsub_def)

text \<open>
  Where \<open>calculate_metrics\<close> returns, its guards hold: a volatility that is not positive
  gives a Sharpe ratio of 0, no market sample or a market deviation that is not positive
  gives a beta of 0, and at least one strategy return is defined.
\<close>

lemma calculate_metrics_guards:
  assumes "calculate_metrics returns = Inr m"
  shows "(\<not> fless (Num 0) (volatility m) \<longrightarrow> sharpe_ratio m = Num 0) \<and>
         (dropna (map market_return returns) = [] \<or>
          \<not> fless (Num 0) (std_ddof1 (dropna (map market_return returns)))
            \<longrightarrow> beta m = Num 0) \<and>
         returns \<noteq> [] \<and> dropna (map strategy_return returns) \<noteq> []"
  using assms
  by (auto simp: calculate_metrics_def Let_def split: if_splits sum.splits)

lemma calculate_metrics_empty: "calculate_metrics [] = Inl IndexError"
  by (simp add: calculate_metrics_def)

lemma generate_signals_one_row:
  "generate_signals [100] 12 26 9 =
     Inr [\<lparr>Close = 100, macd = 0, signal = 0, histogram = 0, position = 0, signal_trigger = 0\<rparr>]"
  by code_simp

lemma calculate_returns_one_row:
  "calculate_returns [\<lparr>Close = 100, macd = 0, signal = 0, histogram = 0, position = 0,
                        signal_trigger = 0\<rparr>] (1 / 1000) =
     [\<lparr>Close = 100, macd = 0, signal = 0, histogram = 0, position = 0, signal_trigger = 0,
       market_return = NaN, position_change = NaN, transaction_costs = NaN,
       strategy_return = NaN, market_cumulative = NaN, strategy_cumulative = NaN\<rparr>]"
  by (simp add: calculate_returns_def Let_def pct_change_def diff_def shift_def cumprod_def
        fsub_def signals_row.defs results_row.defs)

text \<open>
  Claim C7, evaluated at two degenerate inputs. A one-day price series gives a frame
  whose only strategy return is missing: \<open>calculate_metrics\<close> divides 252 by the number
  of defined returns, which is 0, before it reaches the guards of the Sharpe ratio, the
  win rate and beta. On the empty frame the last row of the cumulative curve does not
  exist.
\<close>

theorem calculate_metrics_raises_on_degenerate:
  "generate_signals [100] 12 26 9 =
     Inr [\<lparr>Close = 100, macd = 0, signal = 0, histogram = 0, position = 0, signal_trigger = 0\<rparr>] \<and>
   calculate_metrics
     (calculate_returns [\<lparr>Close = 100, macd = 0, signal = 0, histogram = 0, position = 0,
                           signal_trigger = 0\<rparr>] (1 / 1000)) = Inl ZeroDivisionError \<and>
   calculate_metrics (calculate_returns [] (1 / 1000)) = Inl IndexError"
proof -
  have "calculate_metrics
     (calculate_returns [\<lparr>Close = 100, macd = 0, signal = 0, histogram = 0, position = 0,
                           signal_trigger = 0\<rparr>] (1 / 1000)) = Inl ZeroDivisionError"
    by (simp add: calculate_returns_one_row calculate_metrics_def dropna_def)
  moreover have "calculate_returns [] (1 / 1000) = []"
    by (simp add: calculate_returns_def Let_def)
  ultimately show ?thesis
    using generate_signals_one_row calculate_metrics_empty by simp
qed

subsection \<open>Walk-forward windows\<close>

lemma range_loop_empty: "stop \<le> i \<Longrightarrow> range_loop i stop step = []"
  by (simp add: range_loop.simps)

lemma range_loop_316: "range_loop 0 1 63 = [0]"
  by (simp add: range_loop.simps)

text \<open>
  The windows that the loop does produce: the \<open>k\<close>-th one optimizes on the rows from
  \<open>k * test_window\<close> up to \<open>k * test_window + optimization_window\<close> and tests on the
  \<open>test_window\<close> rows that follow, which end before the last row of the frame. So test
  windows are consecutive, do not overlap, and each starts where its optimization window
  ends.
\<close>

lemma range_loop_bounds:
  "x \<in> set (range_loop i stop step) \<Longrightarrow> i \<le> x \<and> x < stop \<and> 0 < step"
proof (induction i stop step rule: range_loop.induct)
  case (1 i stop step)
  show ?case
  proof (cases "0 < step \<and> i < stop")
    case True
    then have "range_loop i stop step = i # range_loop (i + step) stop step"
      by (subst range_loop.simps) simp
    with "1.prems" have "x = i \<or> x \<in> set (range_loop (i + step) stop step)" by simp
    then show ?thesis
    proof
      assume "x = i" with True show ?thesis by simp
    next
      assume "x \<in> set (range_loop (i + step) stop step)"
      from "1.IH"[OF True this] True show ?thesis by simp
    qed
  next
    case False
    then have "range_loop i stop step = []" by (subst range_loop.simps) simp
    with "1.prems" show ?thesis by simp
  qed
qed

lemma range_loop_nth:
  "k < length (range_loop i stop step) \<Longrightarrow> range_loop i stop step ! k = i + int k * step"
proof (induction i stop step arbitrary: k rule: range_loop.induct)
  case (1 i stop step)
  show ?case
  proof (cases "0 < step \<and> i < stop")
    case True
    then have eq: "range_loop i stop step = i # range_loop (i + step) stop step"
      by (subst range_loop.simps) simp
    show ?thesis
    proof (cases k)
      case 0
      then show ?thesis using eq by simp
    next
      case (Suc j)
      with "1.prems" eq have "j < length (range_loop (i + step) stop step)" by simp
      from "1.IH"[OF True this] have "range_loop (i + step) stop step ! j = i + step + int j * step" .
      then show ?thesis using eq Suc by (simp add: algebra_simps)
    qed
  next
    case False
    then have "range_loop i stop step = []" by (subst range_loop.simps) simp
    with "1.prems" show ?thesis by simp
  qed
qed

lemma walk_forward_windows_shape:
  assumes "k < length (walk_forward_windows n optimization_window test_window)"
  shows "opt_start (walk_forward_windows n optimization_window test_window ! k) = k * test_window \<and>
         opt_end (walk_forward_windows n optimization_window test_window ! k) =
           k * test_window + optimization_window \<and>
         test_start (walk_forward_windows n optimization_window test_window ! k) =
           k * test_window + optimization_window \<and>
         test_end (walk_forward_windows n optimization_window test_window ! k) =
           (k + 1) * test_window + optimization_window \<and>
         (k + 1) * test_window + optimization_window < n"
proof -
  let ?r = "range_loop 0 (int n - int optimization_window - int test_window) (int test_window)"
  have len: "k < length ?r" using assms by (simp add: walk_forward_windows_def)
  have nth: "?r ! k = int k * int test_window" using range_loop_nth[OF len] by simp
  have "?r ! k \<in> set ?r" using len by simp
  from range_loop_bounds[OF this] nth
  have b: "int k * int test_window < int n - int optimization_window - int test_window" by simp
  then have lt: "(k + 1) * test_window + optimization_window < n"
  proof -
    from b have "int k * int test_window + int test_window + int optimization_window < int n"
      by linarith
    then have "int ((k + 1) * test_window + optimization_window) < int n"
      by (simp add: algebra_simps)
    then show ?thesis by (simp only: of_nat_less_iff)
  qed
  have w: "walk_forward_windows n optimization_window test_window ! k =
           window_at n optimization_window test_window (int k * int test_window)"
    using len nth by (simp add: walk_forward_windows_def)
  have "nat (int k * int test_window) = k * test_window"
    by (simp add: nat_mult_distrib)
  then show ?thesis using w lt by (simp add: window_at_def algebra_simps)
qed

text \<open>
  Claim C6, evaluated at the boundary. With 315 rows, an optimization window of 252 and
  a test window of 63, exactly one optimization window and one test window fit, so it is
  not the case that fewer than \<open>252 + 63\<close> rows remain; \<open>walk_forward_analysis\<close> still
  produces no window, because the stop value of its \<open>range\<close> is exclusive. With 316 rows
  the same window is produced, and its test window ends at row 315.
\<close>

theorem walk_forward_skips_exact_fit:
  "walk_forward_windows 315 252 63 = [] \<and>
   walk_forward_analysis minimize (Some (replicate 315 c)) 252 63 = Inr (Some []) \<and>
   walk_forward_windows 316 252 63 =
     [\<lparr>opt_start = 0, opt_end = 252, test_start = 252, test_end = 315\<rparr>]"
proof -
  have a: "walk_forward_windows 315 252 63 = []"
    by (simp add: walk_forward_windows_def range_loop_empty)
  have b: "walk_forward_windows 316 252 63 =
     [\<lparr>opt_start = 0, opt_end = 252, test_start = 252, test_end = 315\<rparr>]"
    by (simp add: walk_forward_windows_def range_loop_316 window_at_def)
  have "walk_forward_analysis minimize (Some (replicate 315 c)) 252 63 = Inr (Some [])"
    using a by (simp add: walk_forward_analysis_def)
  with a b show ?thesis by simp
qed

subsection \<open>Portfolio risk management\<close>

lemma drawdown_loop_map_of:
  assumes "\<forall>k\<in>set ks. map_of signals k \<noteq> None"
  shows "\<exists>res. drawdown_loop signals ks acc = Inr res \<and>
           (\<forall>k. map_of res k =
                 (if k \<in> set ks
                  then map_option (\<lambda>v. if v > 0 then Num 0 else Num v) (map_of signals k)
                  else map_of acc k))"
  using assms
proof (induction ks arbitrary: acc)
  case Nil
  then show ?case by simp
next
  case (Cons k ks)
  then obtain v where v: "map_of signals k = Some v" by auto
  let ?acc = "AList.update k (if v > 0 then Num 0 else Num v) acc"
  from Cons.prems have "\<forall>k\<in>set ks. map_of signals k \<noteq> None" by simp
  from Cons.IH[OF this, of ?acc] obtain res where
    res: "drawdown_loop signals ks ?acc = Inr res"
    and m: "\<forall>k'. map_of res k' =
                 (if k' \<in> set ks
                  then map_option (\<lambda>v. if v > 0 then Num 0 else Num v) (map_of signals k')
                  else map_of ?acc k')"
    by blast
  have "drawdown_loop signals (k # ks) acc = Inr res" using v res by simp
  moreover have "\<forall>k'. map_of res k' =
                 (if k' \<in> set (k # ks)
                  then map_option (\<lambda>v. if v > 0 then Num 0 else Num v) (map_of signals k')
                  else map_of acc k')"
    using m v by (auto simp: update_conv')
  ultimately show ?case by blast
qed

lemma drawdown_loop_all_keys:
  "\<exists>res. drawdown_loop signals (map fst signals) [] = Inr res \<and>
     (\<forall>k. map_of res k = map_option (\<lambda>v. if v > 0 then Num 0 else Num v) (map_of signals k))"
proof -
  have "\<forall>k\<in>set (map fst signals). map_of signals k \<noteq> None"
    by (simp add: map_of_eq_None_iff)
  from drawdown_loop_map_of[OF this, of "[]"] obtain res where
    res: "drawdown_loop signals (map fst signals) [] = Inr res"
    and m: "\<forall>k. map_of res k =
                 (if k \<in> set (map fst signals)
                  then map_option (\<lambda>v. if v > 0 then Num 0 else Num v) (map_of signals k)
                  else map_of [] k)"
    by blast
  have "\<forall>k. map_of res k = map_option (\<lambda>v. if v > 0 then Num 0 else Num v) (map_of signals k)"
  proof
    fix k
    show "map_of res k = map_option (\<lambda>v. if v > 0 then Num 0 else Num v) (map_of signals k)"
    proof (cases "k \<in> set (map fst signals)")
      case True
      then show ?thesis using m by simp
    next
      case False
      then have "map_of signals k = None" by (simp add: map_of_eq_None_iff)
      then show ?thesis using m False by simp
    qed
  qed
  with res show ?thesis by blast
qed

text \<open>
  Claim C8. When the portfolio drawdown exceeds the maximum drawdown,
  \<open>ApplyRiskManagement\<close> (in both multi-asset algorithms) returns a signal map with the
  keys of its input, in which every positive signal has become 0 and every other signal
  is the input's.
\<close>

theorem drawdown_breaker_zeroes_longs:
  "(drawdown self > max_drawdown self \<longrightarrow>
      (\<exists>filtered. ApplyRiskManagement self signals = Inr filtered \<and>
         (\<forall>k. map_of filtered k =
               map_option (\<lambda>v. if v > 0 then Num 0 else Num v) (map_of signals k)))) \<and>
   (simple_drawdown self' > simple_max_drawdown self' \<longrightarrow>
      (\<exists>filtered. Simple_ApplyRiskManagement self' signals = Inr filtered \<and>
         (\<forall>k. map_of filtered k =
               map_option (\<lambda>v. if v > 0 then Num 0 else Num v) (map_of signals k))))"
  using drawdown_loop_all_keys[of signals]
  by (simp add: ApplyRiskManagement_def Simple_ApplyRiskManagement_def)

theorem drawdown_breaker_zeroes_longs_witness:
  "drawdown \<lparr>etfs = Map.empty, max_position_size = 0.125, max_drawdown = 0.15,
             volatility_window = 20, drawdown = 0.2\<rparr>
     > max_drawdown \<lparr>etfs = Map.empty, max_position_size = 0.125, max_drawdown = 0.15,
             volatility_window = 20, drawdown = 0.2\<rparr> \<and>
   map_of (projr (ApplyRiskManagement
       \<lparr>etfs = Map.empty, max_position_size = 0.125, max_drawdown = 0.15,
             volatility_window = 20, drawdown = 0.2\<rparr>
       [(''SPY'', 1), (''QQQ'', - 1), (''XLK'', 0)])) ''SPY'' = Some (Num 0) \<and>
   map_of (projr (ApplyRiskManagement
       \<lparr>etfs = Map.empty, max_position_size = 0.125, max_drawdown = 0.15,
             volatility_window = 20, drawdown = 0.2\<rparr>
       [(''SPY'', 1), (''QQQ'', - 1), (''XLK'', 0)])) ''QQQ'' = Some (Num (- 1)) \<and>
   map_of (projr (Simple_ApplyRiskManagement
       \<lparr>simple_etfs = Map.empty, simple_max_position_size = 0.125, simple_max_drawdown = 0.15,
             simple_volatility_window = 20, simple_drawdown = 0.2\<rparr>
       [(''SPY'', 1), (''QQQ'', - 1), (''XLK'', 0)])) ''SPY'' = Some (Num 0)"
  using drawdown_breaker_zeroes_longs[of
       "\<lparr>etfs = Map.empty, max_position_size = 0.125, max_drawdown = 0.15,
             volatility_window = 20, drawdown = 0.2\<rparr>"
       "[(''SPY'', 1), (''QQQ'', - 1), (''XLK'', 0)]"
       "\<lparr>simple_etfs = Map.empty, simple_max_position_size = 0.125, simple_max_drawdown = 0.15,
             simple_volatility_window = 20, simple_drawdown = 0.2\<rparr>"]
  by auto

subsection \<open>Volatility-based position sizing\<close>

lemma py_min_Num: "py_min (Num a) (Num b) = Num (min a b)"
  by (simp add: py_min_def min_def)

lemma py_max_Num: "py_max (Num a) (Num b) = Num (max a b)"
  by (simp add: py_max_def max_def)

lemma fdiv_Num_nonzero: "b \<noteq> 0 \<Longrightarrow> fdiv (Num a) (Num b) = Num (a / b)"
  by simp

lemma vol_sized_Num:
  "vol_sized size_in size_cap (Num v) =
     Num (min size_cap (size_in * min (0.15 / max v 0.05) 2.0))"
proof -
  have pos: "max v 0.05 \<noteq> 0"
    by (simp add: max_def)
  have "vol_sized size_in size_cap (Num v) =
        Num (min (size_in * min (0.15 / max v 0.05) 2.0) size_cap)"
    by (simp only: vol_sized_def py_max_Num fdiv_Num_nonzero[OF pos] py_min_Num fmul.simps)
  then show ?thesis by (simp only: min.commute)
qed

lemma last_n_nonempty: "0 < n \<Longrightarrow> n \<le> length xs \<Longrightarrow> last_n n xs \<noteq> []"
  by (auto simp: last_n_def)

text \<open>
  Claim C9. For an asset with at least \<open>volatility_window\<close> return observations (and a
  positive window), \<open>CalculatePositionSize\<close> and \<open>AdjustForVolatility\<close> (called with the
  maximum position size, as its caller does) return the specification's
  \<open>min(maxPositionSize, maxPositionSize * min(baseVol / max(assetVol, volFloor), capMultiplier))\<close>
  with \<open>baseVol = 0.15\<close>, \<open>volFloor = 0.05\<close>, \<open>capMultiplier = 2.0\<close>, where the asset
  volatility is the population standard deviation of the latest \<open>volatility_window\<close>
  returns times the square root of 252. The size never exceeds the maximum position size.
\<close>

theorem position_size_matches_spec:
  "(etfs self symbol_str = Some etf \<and> 0 < volatility_window self \<and>
    volatility_window self \<le> length (etf_returns etf) \<longrightarrow>
      CalculatePositionSize self symbol_str sig =
        Inr (Num (spec_position_size (max_position_size self) 0.15 0.05 2.0
                   (population_std (last_n (volatility_window self) (etf_returns etf))
                      * sqrt 252))) \<and>
      spec_position_size (max_position_size self) 0.15 0.05 2.0
         (population_std (last_n (volatility_window self) (etf_returns etf)) * sqrt 252)
        \<le> max_position_size self) \<and>
   (simple_etfs self' symbol_str = Some etf' \<and> 0 < simple_volatility_window self' \<and>
    simple_volatility_window self' \<le> length (simple_returns etf') \<longrightarrow>
      AdjustForVolatility self' symbol_str (simple_max_position_size self') =
        Inr (Num (spec_position_size (simple_max_position_size self') 0.15 0.05 2.0
                   (population_std (take (simple_volatility_window self') (simple_returns etf'))
                      * sqrt 252))) \<and>
      spec_position_size (simple_max_position_size self') 0.15 0.05 2.0
         (population_std (take (simple_volatility_window self') (simple_returns etf')) * sqrt 252)
        \<le> simple_max_position_size self')"
proof (rule conjI; rule impI)
  assume h: "etfs self symbol_str = Some etf \<and> 0 < volatility_window self \<and>
    volatility_window self \<le> length (etf_returns etf)"
  let ?xs = "last_n (volatility_window self) (etf_returns etf)"
  have ne: "?xs \<noteq> []" using h by (simp add: last_n_nonempty)
  have "CalculatePositionSize self symbol_str sig =
      Inr (vol_sized (max_position_size self) (max_position_size self)
             (Num (population_std ?xs * sqrt 252)))"
    using h ne by (simp add: CalculatePositionSize_def np_std_def)
  then have "CalculatePositionSize self symbol_str sig =
        Inr (Num (spec_position_size (max_position_size self) 0.15 0.05 2.0
                   (population_std ?xs * sqrt 252)))"
    by (simp only: vol_sized_Num spec_position_size_def)
  moreover have "spec_position_size (max_position_size self) 0.15 0.05 2.0
         (population_std ?xs * sqrt 252) \<le> max_position_size self"
    by (simp add: spec_position_size_def)
  ultimately show "CalculatePositionSize self symbol_str sig =
        Inr (Num (spec_position_size (max_position_size self) 0.15 0.05 2.0
                   (population_std ?xs * sqrt 252))) \<and>
      spec_position_size (max_position_size self) 0.15 0.05 2.0
         (population_std ?xs * sqrt 252) \<le> max_position_size self"
    by simp
next
  assume h: "simple_etfs self' symbol_str = Some etf' \<and> 0 < simple_volatility_window self' \<and>
    simple_volatility_window self' \<le> length (simple_returns etf')"
  let ?xs = "take (simple_volatility_window self') (simple_returns etf')"
  have ne: "?xs \<noteq> []" using h by auto
  have mn: "min (simple_volatility_window self') (length (simple_returns etf')) =
            simple_volatility_window self'"
    using h by simp
  have "AdjustForVolatility self' symbol_str (simple_max_position_size self') =
      Inr (vol_sized (simple_max_position_size self') (simple_max_position_size self')
             (Num (population_std ?xs * sqrt 252)))"
    using h ne by (simp add: AdjustForVolatility_def np_std_def mn)
  then have "AdjustForVolatility self' symbol_str (simple_max_position_size self') =
        Inr (Num (spec_position_size (simple_max_position_size self') 0.15 0.05 2.0
                   (population_std ?xs * sqrt 252)))"
    by (simp only: vol_sized_Num spec_position_size_def)
  moreover have "spec_position_size (simple_max_position_size self') 0.15 0.05 2.0
         (population_std ?xs * sqrt 252) \<le> simple_max_position_size self'"
    by (simp add: spec_position_size_def)
  ultimately show "AdjustForVolatility self' symbol_str (simple_max_position_size self') =
        Inr (Num (spec_position_size (simple_max_position_size self') 0.15 0.05 2.0
                   (population_std ?xs * sqrt 252))) \<and>
      spec_position_size (simple_max_position_size self') 0.15 0.05 2.0
         (population_std ?xs * sqrt 252) \<le> simple_max_position_size self'"
    by simp
qed

lemma population_std_const: "0 < n \<Longrightarrow> population_std (replicate n c) = 0"
  by (simp add: population_std_def sum_list_replicate)


theorem position_size_matches_spec_witness:
  "volatility_window
     \<lparr>etfs = [''SPY'' \<mapsto> \<lparr>etf_macd = None, etf_ema_fast = None, etf_ema_slow = None, etf_signal_line = None,
        etf_position = 0, etf_last_signal = 0, etf_optimal_params = (12, 26, 9),
        etf_price_history = [], etf_returns = replicate 20 (1 / 100)\<rparr>],
       max_position_size = 1 / 8, max_drawdown = 15 / 100, volatility_window = 20,
       drawdown = 0\<rparr> \<le> length (replicate 20 (1 / 100 :: real)) \<and>
   CalculatePositionSize
     \<lparr>etfs = [''SPY'' \<mapsto> \<lparr>etf_macd = None, etf_ema_fast = None, etf_ema_slow = None, etf_signal_line = None,
        etf_position = 0, etf_last_signal = 0, etf_optimal_params = (12, 26, 9),
        etf_price_history = [], etf_returns = replicate 20 (1 / 100)\<rparr>],
       max_position_size = 1 / 8, max_drawdown = 15 / 100, volatility_window = 20,
       drawdown = 0\<rparr> ''SPY'' 1 = Inr (Num (1 / 8)) \<and>
   AdjustForVolatility
     \<lparr>simple_etfs = [''SPY'' \<mapsto> \<lparr>simple_position = 0, simple_returns = replicate 20 (1 / 100), simple_prices = []\<rparr>],
       simple_max_position_size = 1 / 8, simple_max_drawdown = 15 / 100,
       simple_volatility_window = 20, simple_drawdown = 0\<rparr> ''SPY'' (1 / 8) = Inr (Num (1 / 8))"
  using position_size_matches_spec[of
     "\<lparr>etfs = [''SPY'' \<mapsto> \<lparr>etf_macd = None, etf_ema_fast = None, etf_ema_slow = None, etf_signal_line = None,
        etf_position = 0, etf_last_signal = 0, etf_optimal_params = (12, 26, 9),
        etf_price_history = [], etf_returns = replicate 20 (1 / 100)\<rparr>],
       max_position_size = 1 / 8, max_drawdown = 15 / 100, volatility_window = 20,
       drawdown = 0\<rparr>" "''SPY''"
     "\<lparr>etf_macd = None, etf_ema_fast = None, etf_ema_slow = None, etf_signal_line = None,
        etf_position = 0, etf_last_signal = 0, etf_optimal_params = (12, 26, 9),
        etf_price_history = [], etf_returns = replicate 20 (1 / 100)\<rparr>" 1
     "\<lparr>simple_etfs = [''SPY'' \<mapsto> \<lparr>simple_position = 0, simple_returns = replicate 20 (1 / 100), simple_prices = []\<rparr>],
       simple_max_position_size = 1 / 8, simple_max_drawdown = 15 / 100,
       simple_volatility_window = 20, simple_drawdown = 0\<rparr>"
     "\<lparr>simple_position = 0, simple_returns = replicate 20 (1 / 100), simple_prices = []\<rparr>"]
  by (simp add: last_n_def population_std_const spec_position_size_def)

subsection \<open>The signal line\<close>

lemma length_ewm_loop: "length (ewm_loop alpha numer denom xs) = length xs"
  by (induction xs arbitrary: numer denom) (simp_all add: Let_def)

lemma ewm_mean_Inr:
  "ewm_mean span_n xs = Inr ys \<Longrightarrow>
     1 \<le> span_n \<and> ys = ewm_loop (2 / (real_of_int span_n + 1)) 0 0 xs"
  by (auto simp: ewm_mean_def split: if_splits)

lemma calculate_macd_columns:
  assumes "calculate_macd data fast_period slow_period signal_period = Inr rows"
  shows "length rows = length data \<and>
         map Close rows = data \<and>
         map macd rows =
           map2 (-) (ewm_loop (2 / (real_of_int fast_period + 1)) 0 0 data)
                    (ewm_loop (2 / (real_of_int slow_period + 1)) 0 0 data) \<and>
         map signal rows = ewm_loop (2 / (real_of_int signal_period + 1)) 0 0 (map macd rows)"
proof -
  from assms obtain ema_fast ema_slow signal_col where
    f: "ewm_mean fast_period data = Inr ema_fast" and
    s: "ewm_mean slow_period data = Inr ema_slow" and
    g: "ewm_mean signal_period (map2 (-) ema_fast ema_slow) = Inr signal_col" and
    rows: "rows = map (\<lambda>i. \<lparr>Close = data ! i,
                                     macd = map2 (-) ema_fast ema_slow ! i,
                                     signal = signal_col ! i,
                                     histogram = map2 (-) ema_fast ema_slow ! i - signal_col ! i,
                                     position = 0, signal_trigger = 0\<rparr>)
                             [0..<length data]"
    by (auto simp: calculate_macd_def split: sum.splits)
  let ?m = "map2 (-) ema_fast ema_slow"
  have lf: "length ema_fast = length data" and ls: "length ema_slow = length data"
    using ewm_mean_Inr[OF f] ewm_mean_Inr[OF s] by (simp_all add: length_ewm_loop)
  then have lm: "length ?m = length data" by simp
  have lg: "length signal_col = length data"
    using ewm_mean_Inr[OF g] lm by (simp add: length_ewm_loop)
  have c: "map Close rows = data"
    unfolding rows by (simp add: comp_def map_nth)
  have "map macd rows = map (\<lambda>i. ?m ! i) [0..<length ?m]"
    unfolding rows lm by (simp add: comp_def)
  then have m: "map macd rows = ?m" by (simp only: map_nth)
  have "map signal rows = map (\<lambda>i. signal_col ! i) [0..<length signal_col]"
    unfolding rows lg by (simp add: comp_def)
  then have sg: "map signal rows = signal_col" by (simp only: map_nth)
  show ?thesis
    using c m sg ewm_mean_Inr[OF f] ewm_mean_Inr[OF s] ewm_mean_Inr[OF g]
    by (simp add: rows)
qed

lemma CalculateEMA_Some:
  assumes "1 \<le> period" "period \<le> int (length prices)"
  shows "\<exists>e. CalculateEMA prices period = Inr (Some e)"
proof -
  from assms obtain p0 rest where "prices = p0 # rest" by (cases prices) auto
  then show ?thesis using assms by (simp add: CalculateEMA_def)
qed

text \<open>
  Claim C4, as amended. In \<open>calculate_macd\<close> the signal column is the exponentially
  weighted mean of the MACD column with span \<open>signal_period\<close>, that is with smoothing
  weight \<open>2 / (signal_period + 1)\<close>. In \<open>UpdateMACDIndicators\<close>, whenever both averages
  are computed, the new signal line is \<open>0.1\<close> times the new MACD value plus \<open>0.9\<close> times
  the previous signal line (0 when there is none), whatever the signal period is.
\<close>

theorem signal_line_smoothing:
  "(calculate_macd data fast_period slow_period signal_period = Inr rows \<longrightarrow>
      map signal rows = ewm_loop (2 / (real_of_int signal_period + 1)) 0 0 (map macd rows)) \<and>
   (etfs self symbol_str = Some etf \<and> etf_optimal_params etf = (fast, slow, sig) \<and>
    1 \<le> fast \<and> fast \<le> slow \<and> slow \<le> int (length (etf_price_history etf)) \<longrightarrow>
      (\<exists>m self'. UpdateMACDIndicators self symbol_str price = Inr self' \<and>
          map_option etf_macd (etfs self' symbol_str) = Some (Some m) \<and>
          map_option etf_signal_line (etfs self' symbol_str) =
            Some (Some (m * 0.1 + or_zero (etf_signal_line etf) * 0.9))))"
proof (rule conjI; rule impI)
  assume "calculate_macd data fast_period slow_period signal_period = Inr rows"
  then show "map signal rows =
      ewm_loop (2 / (real_of_int signal_period + 1)) 0 0 (map macd rows)"
    using calculate_macd_columns by blast
next
  assume h: "etfs self symbol_str = Some etf \<and> etf_optimal_params etf = (fast, slow, sig) \<and>
    1 \<le> fast \<and> fast \<le> slow \<and> slow \<le> int (length (etf_price_history etf))"
  then obtain f where f: "CalculateEMA (etf_price_history etf) fast = Inr (Some f)"
    using CalculateEMA_Some[of fast "etf_price_history etf"] by auto
  from h obtain s where s: "CalculateEMA (etf_price_history etf) slow = Inr (Some s)"
    using CalculateEMA_Some[of slow "etf_price_history etf"] by auto
  show "\<exists>m self'. UpdateMACDIndicators self symbol_str price = Inr self' \<and>
          map_option etf_macd (etfs self' symbol_str) = Some (Some m) \<and>
          map_option etf_signal_line (etfs self' symbol_str) =
            Some (Some (m * 0.1 + or_zero (etf_signal_line etf) * 0.9))"
    using h f s by (simp add: UpdateMACDIndicators_def)
qed

lemma ema_fast_example: "CalculateEMA [100, 100, 100, 100, 100, 100, 100, 100, 100, 100, 100, 100, 100, 100, 100, 100, 100, 100, 100, 100, 100, 100, 100, 100, 100, 113] 12 = Inr (Some 102)"
  by code_simp

lemma ema_slow_example: "CalculateEMA [100, 100, 100, 100, 100, 100, 100, 100, 100, 100, 100, 100, 100, 100, 100, 100, 100, 100, 100, 100, 100, 100, 100, 100, 100, 113] 26 = Inr (Some (2726 / 27))"
  by code_simp

lemma update_macd_example:
  "UpdateMACDIndicators
     \<lparr>etfs = [''SPY'' \<mapsto> \<lparr>etf_macd = None, etf_ema_fast = None, etf_ema_slow = None,
        etf_signal_line = Some 1, etf_position = 0, etf_last_signal = 0,
        etf_optimal_params = (12, 26, 9),
        etf_price_history = [100, 100, 100, 100, 100, 100, 100, 100, 100, 100, 100, 100, 100, 100, 100, 100, 100, 100, 100, 100, 100, 100, 100, 100, 100, 113],
        etf_returns = []\<rparr>],
       max_position_size = 1 / 8, max_drawdown = 15 / 100, volatility_window = 20,
       drawdown = 0\<rparr> ''SPY'' 113 =
   Inr \<lparr>etfs = [''SPY'' \<mapsto> \<lparr>etf_macd = Some (28 / 27), etf_ema_fast = Some 102, etf_ema_slow = Some (2726 / 27),
        etf_signal_line = Some (271 / 270), etf_position = 0, etf_last_signal = 0,
        etf_optimal_params = (12, 26, 9),
        etf_price_history = [100, 100, 100, 100, 100, 100, 100, 100, 100, 100, 100, 100, 100, 100, 100, 100, 100, 100, 100, 100, 100, 100, 100, 100, 100, 113],
        etf_returns = []\<rparr>],
       max_position_size = 1 / 8, max_drawdown = 15 / 100, volatility_window = 20,
       drawdown = 0\<rparr>"
  by (simp add: UpdateMACDIndicators_def ema_fast_example ema_slow_example or_zero_def)

lemma update_macd_example_other_period:
  "UpdateMACDIndicators
     \<lparr>etfs = [''SPY'' \<mapsto> \<lparr>etf_macd = None, etf_ema_fast = None, etf_ema_slow = None,
        etf_signal_line = Some 1, etf_position = 0, etf_last_signal = 0,
        etf_optimal_params = (12, 26, 15),
        etf_price_history = [100, 100, 100, 100, 100, 100, 100, 100, 100, 100, 100, 100, 100, 100, 100, 100, 100, 100, 100, 100, 100, 100, 100, 100, 100, 113],
        etf_returns = []\<rparr>],
       max_position_size = 1 / 8, max_drawdown = 15 / 100, volatility_window = 20,
       drawdown = 0\<rparr> ''SPY'' 113 =
   Inr \<lparr>etfs = [''SPY'' \<mapsto> \<lparr>etf_macd = Some (28 / 27), etf_ema_fast = Some 102, etf_ema_slow = Some (2726 / 27),
        etf_signal_line = Some (271 / 270), etf_position = 0, etf_last_signal = 0,
        etf_optimal_params = (12, 26, 15),
        etf_price_history = [100, 100, 100, 100, 100, 100, 100, 100, 100, 100, 100, 100, 100, 100, 100, 100, 100, 100, 100, 100, 100, 100, 100, 100, 100, 113],
        etf_returns = []\<rparr>],
       max_position_size = 1 / 8, max_drawdown = 15 / 100, volatility_window = 20,
       drawdown = 0\<rparr>"
  by (simp add: UpdateMACDIndicators_def ema_fast_example ema_slow_example or_zero_def)

lemma calculate_macd_two_rows:
  "calculate_macd [1, 2] 12 26 9 =
   Inr [\<lparr>Close = 1, macd = 0, signal = 0, histogram = 0, position = 0, signal_trigger = 0\<rparr>,
        \<lparr>Close = 2, macd = 7 / 312, signal = 35 / 2808, histogram = 7 / 702,
         position = 0, signal_trigger = 0\<rparr>]"
  by code_simp

theorem signal_line_smoothing_witness:
  "calculate_macd [1, 2] 12 26 9 =
     Inr [\<lparr>Close = 1, macd = 0, signal = 0, histogram = 0, position = 0, signal_trigger = 0\<rparr>,
        \<lparr>Close = 2, macd = 7 / 312, signal = 35 / 2808, histogram = 7 / 702,
         position = 0, signal_trigger = 0\<rparr>] \<and>
   [0, 35 / 2808] = ewm_loop (2 / (real_of_int 9 + 1)) 0 0 [0, 7 / 312] \<and>
   (26::int) \<le> int (length [100, 100, 100, 100, 100, 100, 100, 100, 100, 100, 100, 100, 100, 100, 100, 100, 100, 100, 100, 100, 100, 100, 100, 100, 100, 113]) \<and>
   map_option etf_signal_line
     (etfs (projr (UpdateMACDIndicators
        \<lparr>etfs = [''SPY'' \<mapsto> \<lparr>etf_macd = None, etf_ema_fast = None, etf_ema_slow = None,
        etf_signal_line = Some 1, etf_position = 0, etf_last_signal = 0,
        etf_optimal_params = (12, 26, 9),
        etf_price_history = [100, 100, 100, 100, 100, 100, 100, 100, 100, 100, 100, 100, 100, 100, 100, 100, 100, 100, 100, 100, 100, 100, 100, 100, 100, 113],
        etf_returns = []\<rparr>],
       max_position_size = 1 / 8, max_drawdown = 15 / 100, volatility_window = 20,
       drawdown = 0\<rparr> ''SPY'' 113)) ''SPY'') =
     Some (Some (28 / 27 * (1 / 10) + 1 * (9 / 10)))"
  using signal_line_smoothing[of "[1, 2]" 12 26 9
      "[\<lparr>Close = 1, macd = 0, signal = 0, histogram = 0, position = 0, signal_trigger = 0\<rparr>,
        \<lparr>Close = 2, macd = 7 / 312, signal = 35 / 2808, histogram = 7 / 702,
         position = 0, signal_trigger = 0\<rparr>]"
      "\<lparr>etfs = [''SPY'' \<mapsto> \<lparr>etf_macd = None, etf_ema_fast = None, etf_ema_slow = None,
        etf_signal_line = Some 1, etf_position = 0, etf_last_signal = 0,
        etf_optimal_params = (12, 26, 9),
        etf_price_history = [100, 100, 100, 100, 100, 100, 100, 100, 100, 100, 100, 100, 100, 100, 100, 100, 100, 100, 100, 100, 100, 100, 100, 100, 100, 113],
        etf_returns = []\<rparr>],
       max_position_size = 1 / 8, max_drawdown = 15 / 100, volatility_window = 20,
       drawdown = 0\<rparr>" "''SPY''"
      "\<lparr>etf_macd = None, etf_ema_fast = None, etf_ema_slow = None,
        etf_signal_line = Some 1, etf_position = 0, etf_last_signal = 0,
        etf_optimal_params = (12, 26, 9),
        etf_price_history = [100, 100, 100, 100, 100, 100, 100, 100, 100, 100, 100, 100, 100, 100, 100, 100, 100, 100, 100, 100, 100, 100, 100, 100, 100, 113],
        etf_returns = []\<rparr>" 12 26 9 113]
    calculate_macd_two_rows update_macd_example
  by (simp add: or_zero_def)

text \<open>
  Claim C4 as stated fails for \<open>UpdateMACDIndicators\<close>: with the default periods
  \<open>(12, 26, 9)\<close>, 25 closes of 100 followed by 113, and a previous signal line of 1, the
  new MACD value is \<open>28 / 27\<close> and the new signal line is \<open>271 / 270\<close>, not the
  \<open>272 / 270\<close> that the weight \<open>2 / (9 + 1)\<close> gives; with a signal period of 15 the result
  is the same.
\<close>

theorem signal_line_fixed_weight_counterexample:
  "UpdateMACDIndicators
     \<lparr>etfs = [''SPY'' \<mapsto> \<lparr>etf_macd = None, etf_ema_fast = None, etf_ema_slow = None,
        etf_signal_line = Some 1, etf_position = 0, etf_last_signal = 0,
        etf_optimal_params = (12, 26, 9),
        etf_price_history = [100, 100, 100, 100, 100, 100, 100, 100, 100, 100, 100, 100, 100, 100, 100, 100, 100, 100, 100, 100, 100, 100, 100, 100, 100, 113],
        etf_returns = []\<rparr>],
       max_position_size = 1 / 8, max_drawdown = 15 / 100, volatility_window = 20,
       drawdown = 0\<rparr> ''SPY'' 113 =
   Inr \<lparr>etfs = [''SPY'' \<mapsto> \<lparr>etf_macd = Some (28 / 27), etf_ema_fast = Some 102, etf_ema_slow = Some (2726 / 27),
        etf_signal_line = Some (271 / 270), etf_position = 0, etf_last_signal = 0,
        etf_optimal_params = (12, 26, 9),
        etf_price_history = [100, 100, 100, 100, 100, 100, 100, 100, 100, 100, 100, 100, 100, 100, 100, 100, 100, 100, 100, 100, 100, 100, 100, 100, 100, 113],
        etf_returns = []\<rparr>],
       max_position_size = 1 / 8, max_drawdown = 15 / 100, volatility_window = 20,
       drawdown = 0\<rparr> \<and>
   UpdateMACDIndicators
     \<lparr>etfs = [''SPY'' \<mapsto> \<lparr>etf_macd = None, etf_ema_fast = None, etf_ema_slow = None,
        etf_signal_line = Some 1, etf_position = 0, etf_last_signal = 0,
        etf_optimal_params = (12, 26, 15),
        etf_price_history = [100, 100, 100, 100, 100, 100, 100, 100, 100, 100, 100, 100, 100, 100, 100, 100, 100, 100, 100, 100, 100, 100, 100, 100, 100, 113],
        etf_returns = []\<rparr>],
       max_position_size = 1 / 8, max_drawdown = 15 / 100, volatility_window = 20,
       drawdown = 0\<rparr> ''SPY'' 113 =
   Inr \<lparr>etfs = [''SPY'' \<mapsto> \<lparr>etf_macd = Some (28 / 27), etf_ema_fast = Some 102, etf_ema_slow = Some (2726 / 27),
        etf_signal_line = Some (271 / 270), etf_position = 0, etf_last_signal = 0,
        etf_optimal_params = (12, 26, 15),
        etf_price_history = [100, 100, 100, 100, 100, 100, 100, 100, 100, 100, 100, 100, 100, 100, 100, 100, 100, 100, 100, 100, 100, 100, 100, 100, 100, 113],
        etf_returns = []\<rparr>],
       max_position_size = 1 / 8, max_drawdown = 15 / 100, volatility_window = 20,
       drawdown = 0\<rparr> \<and>
   (271 / 270 :: real) \<noteq> 2 / (9 + 1) * (28 / 27) + (1 - 2 / (9 + 1)) * 1"
  using update_macd_example update_macd_example_other_period by simp

subsection \<open>Series shorter than the slow period\<close>

lemma cumulative_clip_first:
  "cumulative_clip (0 # ts) ! 0 = 0"
  by (simp add: cumulative_clip_def cumsum_def clip_def)

lemma calculate_macd_total:
  assumes "1 \<le> fast_period" "1 \<le> slow_period" "1 \<le> signal_period"
  shows "\<exists>signals. calculate_macd data fast_period slow_period signal_period = Inr signals"
  using assms by (simp add: calculate_macd_def ewm_mean_def)

lemma generate_signals_rows:
  assumes "calculate_macd data f s g = Inr signals"
  shows "\<exists>rows. generate_signals data f s g = Inr rows \<and> length rows = length signals \<and>
           (\<forall>i<length rows.
              macd (rows ! i) = macd (signals ! i) \<and> signal (rows ! i) = signal (signals ! i) \<and>
              histogram (rows ! i) = histogram (signals ! i) \<and>
              Close (rows ! i) = Close (signals ! i) \<and>
              position (rows ! i) =
                cumulative_clip (map (trigger_at signals) [0..<length signals]) ! i)"
  using assms by (simp add: generate_signals_def Let_def)

lemma map_eq_by_nth:
  assumes "length xs = length ys" "\<forall>i<length xs. f (xs ! i) = g (ys ! i)"
  shows "map f xs = map g ys"
  using assms by (simp add: list_eq_iff_nth_eq)

lemma calculate_macd_histogram:
  assumes "calculate_macd data f s g = Inr signals"
  shows "\<forall>i<length signals. histogram (signals ! i) = macd (signals ! i) - signal (signals ! i)"
  using assms by (auto simp: calculate_macd_def split: sum.splits)

lemma triggers_first:
  "0 < n \<Longrightarrow> map (trigger_at signals) [0..<n] = 0 # map (trigger_at signals) [1..<n]"
  by (simp add: upt_conv_Cons trigger_at_def)

text \<open>
  Claim C3, as amended. For every price series, also one shorter than the slow period,
  and all periods of at least 1, \<open>generate_signals\<close> returns one row per timestamp, each
  with a numeric MACD, signal and histogram value (there is no "not ready" flag: the
  exponentially weighted means start at the first close). The position at the first
  timestamp is 0, and a series of at most one timestamp gets an all-flat position
  column.
\<close>

theorem short_series_still_scored:
  assumes "1 \<le> fast_period" "1 \<le> slow_period" "1 \<le> signal_period"
  shows "\<exists>rows. generate_signals data fast_period slow_period signal_period = Inr rows \<and>
           length rows = length data \<and>
           map Close rows = data \<and>
           map signal rows =
             ewm_loop (2 / (real_of_int signal_period + 1)) 0 0 (map macd rows) \<and>
           (\<forall>i<length rows. histogram (rows ! i) = macd (rows ! i) - signal (rows ! i)) \<and>
           (0 < length rows \<longrightarrow> position (rows ! 0) = 0) \<and>
           (length data \<le> 1 \<longrightarrow> (\<forall>r\<in>set rows. position r = 0))"
proof -
  from calculate_macd_total[OF assms] obtain signals where
    cm: "calculate_macd data fast_period slow_period signal_period = Inr signals" by blast
  from generate_signals_rows[OF cm] obtain rows where
    gs: "generate_signals data fast_period slow_period signal_period = Inr rows" and
    len: "length rows = length signals" and
    flds: "\<forall>i<length rows.
              macd (rows ! i) = macd (signals ! i) \<and> signal (rows ! i) = signal (signals ! i) \<and>
              histogram (rows ! i) = histogram (signals ! i) \<and>
              Close (rows ! i) = Close (signals ! i) \<and>
              position (rows ! i) =
                cumulative_clip (map (trigger_at signals) [0..<length signals]) ! i"
    by blast
  note cols = calculate_macd_columns[OF cm]
  have mm: "map macd rows = map macd signals" "map signal rows = map signal signals"
       "map Close rows = map Close signals"
    using len flds by (blast intro: map_eq_by_nth)+
  have hist: "\<forall>i<length rows. histogram (rows ! i) = macd (rows ! i) - signal (rows ! i)"
    using calculate_macd_histogram[OF cm] flds len by simp
  have p0: "0 < length rows \<longrightarrow> position (rows ! 0) = 0"
  proof
    assume pos: "0 < length rows"
    then have "position (rows ! 0) =
        cumulative_clip (map (trigger_at signals) [0..<length signals]) ! 0"
      using flds by blast
    also have "\<dots> = 0"
      using pos len by (simp add: triggers_first cumulative_clip_first)
    finally show "position (rows ! 0) = 0" .
  qed
  have flat: "length data \<le> 1 \<longrightarrow> (\<forall>r\<in>set rows. position r = 0)"
  proof (intro impI ballI)
    fix r assume l: "length data \<le> 1" and r: "r \<in> set rows"
    from r obtain i where i: "i < length rows" "r = rows ! i" by (auto simp: in_set_conv_nth)
    with l len cols have "i = 0" by simp
    with i p0 show "position r = 0" by simp
  qed
  show ?thesis
    using gs len cols mm hist p0 flat by auto
qed

theorem short_series_still_scored_witness:
  "(1::int) \<le> 12 \<and> (1::int) \<le> 26 \<and> (1::int) \<le> 9 \<and>
   length (projr (generate_signals [1, 2] 12 26 9)) = length [1 :: real, 2] \<and>
   position (projr (generate_signals [1, 2] 12 26 9) ! 0) = 0"
  using short_series_still_scored[of 12 26 9 "[1, 2]"]
  by auto

text \<open>
  Claim C3 as stated fails: on the two closes 1 and 2, far fewer than the slow period
  of 26, the indicator columns hold numbers and the second position is 1.
\<close>

theorem short_series_trades_counterexample:
  "int (length [1 :: real, 2]) < 26 \<and>
   generate_signals [1, 2] 12 26 9 =
     Inr [\<lparr>Close = 1, macd = 0, signal = 0, histogram = 0, position = 0, signal_trigger = 0\<rparr>,
          \<lparr>Close = 2, macd = 7 / 312, signal = 35 / 2808, histogram = 7 / 702,
           position = 1, signal_trigger = 1\<rparr>]"
  using generate_signals_two_rows by simp

end
